theory Spec2Isabelle
  imports Complex_Main
begin

section \<open>The OpenGL proxy of the renderer (openglproxy.cpp)\<close>

text \<open>
  The proxy owns one GPU context, one framebuffer, a shader cache, a texture cache and a
  colour-processor cache. Every member function is modelled as a function on the record
  \<open>proxy\<close>; the calls it issues to the GPU, the shader objects, the texture cache and the
  framebuffer are appended, in program order, to the field \<open>gl_log\<close>. What the frame
  utilities do to a CPU frame is recorded in the frame's symbolic pixel contents.

  Classes that the file only uses (nodes, parameters, frames, textures, the texture
  cache, the colour processor, Qt) are not part of the sources. Their data is given as
  records with the accessors the file calls; what their member functions compute is
  either a field of those records (a parameter of the model) or modelled from the
  specification, as said at each definition.
\<close>

subsection \<open>Data\<close>

text \<open>\<open>NodeParam::Type\<close> and \<open>NodeParam::DataType\<close>: the constants the file names.\<close>

datatype param_type = kInput | kOutput

datatype data_type =
    kNone | kInt | kFloat | kRational | kBoolean | kColor | kMatrix | kText | kFont
  | kFile | kTexture | kSamples | kFootage | kVec2 | kVec3 | kVec4 | kCombo | kDecimal
  | kNumber | kString | kBuffer | kVector | kAny

datatype pixel_format =
    PIX_FMT_RGB8 | PIX_FMT_RGBA8 | PIX_FMT_RGB16U | PIX_FMT_RGBA16U
  | PIX_FMT_RGB16F | PIX_FMT_RGBA16F | PIX_FMT_RGB32F | PIX_FMT_RGBA32F

text \<open>
  Modelled from the spec: \<open>PixelFormat::FormatHasAlphaChannel\<close> (pixel-format metadata,
  alpha-channel presence) is not part of the sources; the formats with an alpha channel
  are the RGBA ones.
\<close>

fun FormatHasAlphaChannel :: "pixel_format \<Rightarrow> bool" where
  "FormatHasAlphaChannel PIX_FMT_RGBA8 = True"
| "FormatHasAlphaChannel PIX_FMT_RGBA16U = True"
| "FormatHasAlphaChannel PIX_FMT_RGBA16F = True"
| "FormatHasAlphaChannel PIX_FMT_RGBA32F = True"
| "FormatHasAlphaChannel _ = False"

text \<open>\<open>VideoParams\<close>: width, height, pixel format and resolution divider.\<close>

record video_params =
  vp_width :: int
  vp_height :: int
  vp_format :: pixel_format
  vp_divider :: int

definition VideoParams :: "int \<Rightarrow> int \<Rightarrow> pixel_format \<Rightarrow> int \<Rightarrow> video_params" where
  "VideoParams w h f d = \<lparr>vp_width = w, vp_height = h, vp_format = f, vp_divider = d\<rparr>"

text \<open>
  Modelled from the spec: \<open>VideoParams::effective_width\<close> and \<open>effective_height\<close> are not
  part of the sources; the resolution divider is the integer factor by which the working
  resolution is reduced from the nominal one.
\<close>

definition effective_width :: "video_params \<Rightarrow> int" where
  "effective_width p = vp_width p div vp_divider p"

definition effective_height :: "video_params \<Rightarrow> int" where
  "effective_height p = vp_height p div vp_divider p"

text \<open>
  A GPU texture: its GL name (\<open>texture()\<close>, never 0 for a texture that exists) and its
  shape. A \<open>ReferencePtr\<close> is a \<open>texture option\<close>, \<open>None\<close> being the null pointer.
  \<open>width()\<close> and \<open>height()\<close> are the working size: line 334 multiplies them by the divider
  to get the nominal resolution back.
\<close>

record texture =
  tex_id :: nat
  tex_params :: video_params

definition tex_width :: "texture \<Rightarrow> int" where
  "tex_width t = effective_width (tex_params t)"

definition tex_height :: "texture \<Rightarrow> int" where
  "tex_height t = effective_height (tex_params t)"

definition tex_divider :: "texture \<Rightarrow> int" where
  "tex_divider t = vp_divider (tex_params t)"

text \<open>
  A \<open>QVariant\<close>: invalid, holding a texture reference (possibly null), or holding any
  other payload, which the model keeps as an opaque tag. \<open>value<ReferencePtr>()\<close> of a
  variant that holds no texture reference is the null pointer.
\<close>

datatype qvariant = QInvalid | QTextureRef "texture option" | QOther nat

fun as_texture :: "qvariant \<Rightarrow> texture option" where
  "as_texture (QTextureRef r) = r"
| "as_texture _ = None"

record node_value =
  nv_type :: data_type
  nv_data :: qvariant

definition NodeValue :: "data_type \<Rightarrow> qvariant \<Rightarrow> node_value" where
  "NodeValue t d = \<lparr>nv_type = t, nv_data = d\<rparr>"

text \<open>
  A node parameter. \<open>p_ptr\<close> is the object's address (the file compares parameters by
  pointer, line 340). \<open>p_array\<close> holds, for a \<open>NodeInputArray\<close>, the addresses of its
  element inputs: \<open>GetSize()\<close> is its length and \<open>At(i)\<close> its i-th entry.
\<close>

record node_param =
  p_ptr :: nat
  p_type :: param_type
  p_id :: string
  p_data_type :: data_type
  p_IsArray :: bool
  p_array :: "nat list"

text \<open>
  The \<open>NodeValueDatabase\<close> handed to a render call, through the two reads the file makes:
  \<open>Node::InputValueFromTable(input, input_params, false)\<close>, keyed by the input's address,
  and \<open>input_params[input].Get(type)\<close>.
\<close>

record node_value_database =
  InputValueFromTable :: "nat \<Rightarrow> node_value"
  table_Get :: "nat \<Rightarrow> data_type \<Rightarrow> qvariant"

datatype block_type = kClip | kGap | kTransition

text \<open>
  A node, through the member functions the file calls. The shader identity and the
  generated sources depend on the input values; the three progress functions are those
  of a \<open>TransitionBlock\<close> and are read only when the node is one.
\<close>

record node =
  n_id :: string
  ShaderID :: "node_value_database \<Rightarrow> string"
  ShaderVertexCode :: "node_value_database \<Rightarrow> string"
  ShaderFragmentCode :: "node_value_database \<Rightarrow> string"
  ShaderIterations :: int
  ShaderIterativeInput :: "nat option"
  parameters :: "node_param list"
  IsBlock :: bool
  n_block_type :: block_type
  GetTotalProgress :: "rat \<Rightarrow> rat"
  GetOutProgress :: "rat \<Rightarrow> rat"
  GetInProgress :: "rat \<Rightarrow> rat"

text \<open>
  A shader program object: \<open>sh_id\<close> is the identity of the instance that
  \<open>OpenGLShader::Create()\<close> returned, \<open>sh_linked\<close> what \<open>link()\<close> returned.
\<close>

record shader =
  sh_id :: nat
  sh_frag :: string
  sh_vert :: string
  sh_linked :: bool

text \<open>
  What lies behind the GL driver and \<open>OpenGLShader\<close>, taken as parameters: the two default
  sources, whether a pair of sources compiles and links, and the location of a uniform
  name in a program (\<open>-1\<close> when the program has no such active uniform).
\<close>

record gl_env =
  CodeDefaultFragment :: string
  CodeDefaultVertex :: string
  links :: "string \<Rightarrow> string \<Rightarrow> bool"
  uniformLocation :: "shader \<Rightarrow> string \<Rightarrow> int"

text \<open>The value handed to \<open>setUniformValue\<close>, by the conversion the file applies.\<close>

datatype uniform_value =
    UInt qvariant | UFloat qvariant | UVec2 qvariant | UVec2Array "qvariant list"
  | UVec3 qvariant | UVec4 qvariant | UMatrix qvariant | UCombo qvariant | UColor qvariant
  | UBool qvariant | UCount int | UTextureUnit nat | UEnabled bool | UResolution int int
  | UIteration int | UProgress rat

datatype uniform_ref = Location int | Name string

text \<open>Symbolic contents of a CPU pixel buffer: the operations applied, innermost first.\<close>

datatype pixels =
    Raw nat
  | ConvertPixelFormat pixel_format pixels
  | DisassociateAlpha pixels
  | ConvertFrame string string pixels
  | ReassociateAlpha pixels
  | AssociateAlpha pixels
  | ReadPixels nat int int pixel_format int

text \<open>
  A CPU frame. Modelled from the spec: \<open>Frame::width\<close>, \<open>height\<close> and \<open>format\<close> are not part
  of the sources; they are the working size and the format of the frame's own
  \<open>video_params\<close>, as for a texture.
\<close>

record frame =
  f_video_params :: video_params
  f_sample_aspect_ratio :: rat
  f_linesize_pixels :: int
  f_data :: pixels

definition frame_width :: "frame \<Rightarrow> int" where
  "frame_width f = effective_width (f_video_params f)"

definition frame_height :: "frame \<Rightarrow> int" where
  "frame_height f = effective_height (f_video_params f)"

definition frame_format :: "frame \<Rightarrow> pixel_format" where
  "frame_format f = vp_format (f_video_params f)"

text \<open>The calls the proxy issues, in the order of the log.\<close>

datatype gl_call =
    ShaderCreate nat
  | addFragmentShader nat string
  | addVertexShader nat string
  | ShaderLink nat
  | ShaderBind nat
  | ShaderRelease nat
  | setUniformValue nat uniform_ref uniform_value
  | glActiveTexture nat
  | glBindTexture nat
  | PrepareToDraw
  | glViewport int int
  | TextureCacheGet nat video_params
  | TextureCacheUpload nat frame
  | BufferAttach nat bool
  | BufferBind
  | BufferRelease
  | BufferDetach
  | BufferDestroy
  | Blit nat
  | BlitCopy "nat option" nat
  | TextureBind nat
  | TextureRelease nat
  | glPixelStorei int
  | glReadPixels int int pixel_format
  | ColorProcessorEnable string bool
  | ProcessOpenGL string
  | ContextDelete

text \<open>An \<open>OpenGLColorProcessor\<close>: the two colour spaces it converts between, and its GPU state.\<close>

record color_processor =
  cp_input :: string
  cp_reference :: string
  cp_enabled :: bool

text \<open>The framebuffer object: whether it exists, and the texture attached to it.\<close>

record framebuffer =
  fb_created :: bool
  fb_attachment :: "nat option"

text \<open>
  The proxy's members, named as in the class without the trailing underscore
  (\<open>gl_functions\<close> is \<open>functions_\<close>). \<open>ctx\<close>, \<open>gl_functions\<close> and \<open>copy_pipeline\<close> are
  pointers (\<open>None\<close> is \<open>nullptr\<close>); \<open>shader_cache\<close> and \<open>color_cache\<close> are hashes whose
  \<open>value(k)\<close> is the null pointer for a missing key. \<open>texture_cache\<close> lists the textures
  the texture cache has created. \<open>next_shader\<close> numbers the program instances created so
  far. The functions below are those of an initialised proxy (\<open>FinishInit\<close> has run).
\<close>

record proxy =
  ctx :: "nat option"
  gl_functions :: "nat option"
  shader_cache :: "string \<rightharpoonup> shader"
  texture_cache :: "texture list"
  color_cache :: "string \<rightharpoonup> color_processor"
  buffer :: framebuffer
  copy_pipeline :: "shader option"
  next_shader :: nat
  gl_log :: "gl_call list"

definition emit :: "gl_call list \<Rightarrow> proxy \<Rightarrow> proxy" where
  "emit cs s = s\<lparr>gl_log := gl_log s @ cs\<rparr>"

subsection \<open>The texture cache and the framebuffer\<close>

text \<open>
  Modelled from the spec: \<open>OpenGLTextureCache::Get\<close> is not part of the sources. A request
  leases a texture of the requested shape that no live handle holds; the model creates
  one under a GL name not used before (pooled reuse of a released texture is left out).
  The overload taking a frame derives the shape from the frame and uploads its pixels.
\<close>

definition texture_cache_Get :: "video_params \<Rightarrow> proxy \<Rightarrow> texture \<times> proxy" where
  "texture_cache_Get p s =
     (let t = \<lparr>tex_id = Suc (length (texture_cache s)), tex_params = p\<rparr>
      in (t, emit [TextureCacheGet (tex_id t) p] (s\<lparr>texture_cache := texture_cache s @ [t]\<rparr>)))"

definition texture_cache_Get_frame :: "frame \<Rightarrow> proxy \<Rightarrow> texture \<times> proxy" where
  "texture_cache_Get_frame f s =
     (let t = \<lparr>tex_id = Suc (length (texture_cache s)), tex_params = f_video_params f\<rparr>
      in (t, emit [TextureCacheUpload (tex_id t) f] (s\<lparr>texture_cache := texture_cache s @ [t]\<rparr>)))"

text \<open>
  Modelled from the spec: \<open>OpenGLFramebuffer\<close> is not part of the sources. At most one
  texture is attached at a time; destroying the framebuffer releases it.
\<close>

definition buffer_Attach :: "texture \<Rightarrow> bool \<Rightarrow> proxy \<Rightarrow> proxy" where
  "buffer_Attach t clear s =
     emit [BufferAttach (tex_id t) clear] (s\<lparr>buffer := (buffer s)\<lparr>fb_attachment := Some (tex_id t)\<rparr>\<rparr>)"

definition buffer_Detach :: "proxy \<Rightarrow> proxy" where
  "buffer_Detach s = emit [BufferDetach] (s\<lparr>buffer := (buffer s)\<lparr>fb_attachment := None\<rparr>\<rparr>)"

definition buffer_Destroy :: "proxy \<Rightarrow> proxy" where
  "buffer_Destroy s =
     (if fb_created (buffer s)
      then emit [BufferDestroy] (s\<lparr>buffer := \<lparr>fb_created = False, fb_attachment = None\<rparr>\<rparr>)
      else s)"

subsection \<open>RunNodeAccelerated: fetching the shader (lines 194-217)\<close>

text \<open>
  The program is looked up under \<open>node->ShaderID(input_params)\<close>. On a miss the sources are
  generated, an empty one is replaced by the default, a new program object is created,
  compiled and linked, and it is inserted under \<open>node->id()\<close>. The results of \<open>create\<close>,
  \<open>addShaderFromSourceCode\<close> and \<open>link\<close> are not read.
\<close>

definition getOrCompile :: "gl_env \<Rightarrow> node \<Rightarrow> node_value_database \<Rightarrow> proxy \<Rightarrow> shader \<times> proxy" where
  "getOrCompile env n input_params s =
     (case shader_cache s (ShaderID n input_params) of
        Some sh \<Rightarrow> (sh, s)
      | None \<Rightarrow>
          (let vert_code = ShaderVertexCode n input_params;
               frag_code = ShaderFragmentCode n input_params;
               frag_code = (if frag_code = [] then CodeDefaultFragment env else frag_code);
               vert_code = (if vert_code = [] then CodeDefaultVertex env else vert_code);
               sh = \<lparr>sh_id = next_shader s, sh_frag = frag_code, sh_vert = vert_code,
                     sh_linked = links env frag_code vert_code\<rparr>
           in (sh, emit [ShaderCreate (sh_id sh),
                         addFragmentShader (sh_id sh) frag_code,
                         addVertexShader (sh_id sh) vert_code,
                         ShaderLink (sh_id sh)]
                     (s\<lparr>next_shader := Suc (next_shader s),
                        shader_cache := (shader_cache s)(n_id n \<mapsto> sh)\<rparr>))))"

subsection \<open>RunNodeAccelerated: binding the inputs (lines 232-364)\<close>

text \<open>The locals of the \<open>foreach\<close> over the node's parameters, and the calls it issues.\<close>

record inputs_state =
  input_texture_count :: nat
  iterative_input :: nat
  issued :: "gl_call list"

text \<open>The cases \<open>kFootage\<close>, \<open>kTexture\<close>, \<open>kBuffer\<close> of the switch (lines 308-348).\<close>

definition bind_texture_input ::
  "gl_env \<Rightarrow> node \<Rightarrow> shader \<Rightarrow> node_param \<Rightarrow> int \<Rightarrow> qvariant \<Rightarrow> inputs_state \<Rightarrow> inputs_state" where
  "bind_texture_input env n sh input variable_location val st =
     (let texture = as_texture val;
          unit = input_texture_count st;
          tid = (case texture of Some t \<Rightarrow> tex_id t | None \<Rightarrow> 0);
          enable_param_location = uniformLocation env sh (p_id input @ ''_enabled'');
          res_param_location = uniformLocation env sh (p_id input @ ''_resolution'')
      in st\<lparr>issued := issued st
                @ [glActiveTexture unit, glBindTexture tid,
                   setUniformValue (sh_id sh) (Location variable_location) (UTextureUnit unit)]
                @ (if enable_param_location > -1
                   then [setUniformValue (sh_id sh) (Location enable_param_location) (UEnabled (tid > 0))]
                   else [])
                @ (case texture of
                     Some t \<Rightarrow>
                       if tid > 0 \<and> res_param_location > -1
                       then [setUniformValue (sh_id sh) (Location res_param_location)
                               (UResolution (tex_width t * tex_divider t) (tex_height t * tex_divider t))]
                       else []
                   | None \<Rightarrow> [])
                @ [PrepareToDraw],
             iterative_input :=
               (if Some (p_ptr input) = ShaderIterativeInput n then unit else iterative_input st),
             input_texture_count := Suc unit\<rparr>)"

text \<open>The body of the \<open>if (variable_location > -1)\<close> (lines 240-361).\<close>

definition bind_input ::
  "gl_env \<Rightarrow> node \<Rightarrow> node_value_database \<Rightarrow> shader \<Rightarrow> node_param \<Rightarrow> int \<Rightarrow> inputs_state \<Rightarrow> inputs_state" where
  "bind_input env n input_params sh input variable_location st =
     (let meta_value = InputValueFromTable input_params (p_ptr input);
          val = nv_data meta_value;
          data_type = (if nv_type meta_value \<noteq> kNone then nv_type meta_value else p_data_type input);
          set = (\<lambda>v. st\<lparr>issued := issued st @ [setUniformValue (sh_id sh) (Location variable_location) v]\<rparr>)
      in case data_type of
           kInt \<Rightarrow> set (UInt val)
         | kFloat \<Rightarrow> set (UFloat val)
         | kVec2 \<Rightarrow>
             if p_IsArray input
             then (let a = map (\<lambda>e. table_Get input_params e kVec2) (p_array input);
                       count_location = uniformLocation env sh (p_id input @ ''_count'')
                   in st\<lparr>issued := issued st
                        @ [setUniformValue (sh_id sh) (Location variable_location) (UVec2Array a)]
                        @ (if count_location > -1
                           then [setUniformValue (sh_id sh) (Location count_location) (UCount (int (length a)))]
                           else [])\<rparr>)
             else set (UVec2 val)
         | kVec3 \<Rightarrow> set (UVec3 val)
         | kVec4 \<Rightarrow> set (UVec4 val)
         | kMatrix \<Rightarrow> set (UMatrix val)
         | kCombo \<Rightarrow> set (UCombo val)
         | kColor \<Rightarrow> set (UColor val)
         | kBoolean \<Rightarrow> set (UBool val)
         | kFootage \<Rightarrow> bind_texture_input env n sh input variable_location val st
         | kTexture \<Rightarrow> bind_texture_input env n sh input variable_location val st
         | kBuffer \<Rightarrow> bind_texture_input env n sh input variable_location val st
         | _ \<Rightarrow> st)"

text \<open>One round of the \<open>foreach\<close> (lines 235-363), and the loop itself.\<close>

definition bind_parameter ::
  "gl_env \<Rightarrow> node \<Rightarrow> node_value_database \<Rightarrow> shader \<Rightarrow> node_param \<Rightarrow> inputs_state \<Rightarrow> inputs_state" where
  "bind_parameter env n input_params sh param st =
     (if p_type param = kInput
      then (let variable_location = uniformLocation env sh (p_id param)
            in if variable_location > -1
               then bind_input env n input_params sh param variable_location st
               else st)
      else st)"

fun ResolveInputs ::
  "gl_env \<Rightarrow> node \<Rightarrow> node_value_database \<Rightarrow> shader \<Rightarrow> node_param list \<Rightarrow> inputs_state \<Rightarrow> inputs_state" where
  "ResolveInputs env n input_params sh [] st = st"
| "ResolveInputs env n input_params sh (param # ps) st =
     ResolveInputs env n input_params sh ps (bind_parameter env n input_params sh param st)"

subsection \<open>RunNodeAccelerated: the iterations (lines 388-416) and the release (lines 419-425)\<close>

text \<open>
  The body of the \<open>for\<close> loop (lines 391-415); it returns \<open>destination_tex\<close>. The counter
  starts at 0 and only grows, so both indices into \<open>dst_refs\<close> are in range (\<open>dst_refs\<close>
  has one or two entries).
\<close>

definition draw_iteration ::
  "shader \<Rightarrow> texture list \<Rightarrow> nat \<Rightarrow> int \<Rightarrow> proxy \<Rightarrow> texture \<times> proxy" where
  "draw_iteration sh dst_refs iter_in iteration s0 =
     (let source_tex = dst_refs ! nat ((iteration + 1) mod int (length dst_refs));
          destination_tex = dst_refs ! nat (iteration mod int (length dst_refs));
          s = emit [ShaderBind (sh_id sh),
                    setUniformValue (sh_id sh) (Name ''ove_iteration'') (UIteration iteration),
                    ShaderRelease (sh_id sh)] s0;
          s = (if iteration > 0
               then emit [glActiveTexture iter_in, glBindTexture (tex_id source_tex)] s
               else s);
          s = buffer_Attach destination_tex True s;
          s = emit [BufferBind, Blit (sh_id sh), BufferRelease] s;
          s = buffer_Detach s
      in (destination_tex, s))"

text \<open>The \<open>for\<close> loop, from the current value of \<open>iteration\<close> up to \<open>ShaderIterations\<close>.\<close>

function DrawLoop ::
  "node \<Rightarrow> shader \<Rightarrow> texture list \<Rightarrow> nat \<Rightarrow> int \<Rightarrow> texture option \<times> proxy \<Rightarrow> texture option \<times> proxy" where
  "DrawLoop n sh dst_refs iter_in iteration (output_tex, s) =
     (if iteration < ShaderIterations n
      then DrawLoop n sh dst_refs iter_in (iteration + 1)
             (Some (fst (draw_iteration sh dst_refs iter_in iteration s)),
              snd (draw_iteration sh dst_refs iter_in iteration s))
      else (output_tex, s))"
  by pat_completeness auto
termination
  by (relation "measure (\<lambda>(n, sh, dst_refs, iter_in, iteration, r). nat (ShaderIterations n - iteration))") auto

text \<open>The \<open>while (input_texture_count > 0)\<close> loop.\<close>

fun release_textures :: "nat \<Rightarrow> gl_call list" where
  "release_textures 0 = []"
| "release_textures (Suc c) = [glActiveTexture c, glBindTexture 0] @ release_textures c"

subsection \<open>RunNodeAccelerated (lines 188-430)\<close>

text \<open>
  \<open>range_in\<close> is \<open>range.in()\<close>. \<open>output_params.Push\<close> appends to the output table. The
  function returns nothing and reports nothing: its results are the output table and
  the proxy's new state.
\<close>

definition RunNodeAccelerated ::
  "gl_env \<Rightarrow> node \<Rightarrow> rat \<Rightarrow> node_value_database \<Rightarrow> node_value list \<Rightarrow> video_params \<Rightarrow> proxy
     \<Rightarrow> node_value list \<times> proxy" where
  "RunNodeAccelerated env n range_in input_params output_params params s0 =
     (let (sh, s) = getOrCompile env n input_params s0;
          (dst0, s) = texture_cache_Get params s;
          (dst_refs, s) =
             (if ShaderIterations n > 1 \<and> ShaderIterativeInput n \<noteq> None
              then (let (dst1, s') = texture_cache_Get params s in ([dst0, dst1], s'))
              else ([dst0], s));
          s = emit [ShaderBind (sh_id sh)] s;
          st = ResolveInputs env n input_params sh (parameters n)
                 \<lparr>input_texture_count = 0, iterative_input = 0, issued = []\<rparr>;
          s = emit (issued st) s;
          s = emit [glViewport (effective_width params) (effective_height params),
                    setUniformValue (sh_id sh) (Name ''ove_resolution'')
                      (UResolution (vp_width params) (vp_height params))] s;
          s = (if IsBlock n \<and> n_block_type n = kTransition
               then emit [setUniformValue (sh_id sh) (Name ''ove_tprog_all'') (UProgress (GetTotalProgress n range_in)),
                          setUniformValue (sh_id sh) (Name ''ove_tprog_out'') (UProgress (GetOutProgress n range_in)),
                          setUniformValue (sh_id sh) (Name ''ove_tprog_in'') (UProgress (GetInProgress n range_in))] s
               else s);
          (output_tex, s) = DrawLoop n sh dst_refs (iterative_input st) 0 (None, s);
          s = emit (release_textures (input_texture_count st)) s;
          s = emit [ShaderRelease (sh_id sh)] s
      in (output_params @ [NodeValue kTexture (QTextureRef output_tex)], s))"

subsection \<open>FrameToValue (lines 70-171)\<close>

datatype render_mode = kOffline | kOnline

text \<open>
  \<open>ColorManager::OCIOMethod\<close>. The file tests for \<open>kOCIOAccurate\<close> and for \<open>kOCIOFast\<close> in two
  separate \<open>if\<close>s; \<open>kOCIODisabled\<close> stands for any other value, for which neither runs.
\<close>

datatype ocio_method = kOCIOFast | kOCIOAccurate | kOCIODisabled

text \<open>An \<open>ImageStream\<close>, through the accessors the file calls.\<close>

record video_stream =
  get_colorspace_match_string :: string
  colorspace :: string
  GetReferenceColorSpace :: string
  premultiplied_alpha :: bool

text \<open>
  Modelled from the spec: the frame utilities \<open>PixelFormat::ConvertPixelFormat\<close>,
  \<open>ColorManager::DisassociateAlpha\<close>, \<open>ReassociateAlpha\<close>, \<open>AssociateAlpha\<close> and the
  processor's \<open>ConvertFrame\<close> are not part of the sources. Each is recorded in the
  frame's symbolic pixel contents; the conversion also changes the frame's format.
\<close>

definition frame_ConvertPixelFormat :: "frame \<Rightarrow> pixel_format \<Rightarrow> frame" where
  "frame_ConvertPixelFormat f fmt =
     f\<lparr>f_video_params := (f_video_params f)\<lparr>vp_format := fmt\<rparr>,
       f_data := ConvertPixelFormat fmt (f_data f)\<rparr>"

definition frame_DisassociateAlpha :: "frame \<Rightarrow> frame" where
  "frame_DisassociateAlpha f = f\<lparr>f_data := DisassociateAlpha (f_data f)\<rparr>"

definition frame_ReassociateAlpha :: "frame \<Rightarrow> frame" where
  "frame_ReassociateAlpha f = f\<lparr>f_data := ReassociateAlpha (f_data f)\<rparr>"

definition frame_AssociateAlpha :: "frame \<Rightarrow> frame" where
  "frame_AssociateAlpha f = f\<lparr>f_data := AssociateAlpha (f_data f)\<rparr>"

definition frame_ConvertFrame :: "color_processor \<Rightarrow> frame \<Rightarrow> frame" where
  "frame_ConvertFrame cp f = f\<lparr>f_data := ConvertFrame (cp_input cp) (cp_reference cp) (f_data f)\<rparr>"

text \<open>The CPU colour path (lines 89-114).\<close>

definition accurate_transform :: "color_processor \<Rightarrow> video_stream \<Rightarrow> frame \<Rightarrow> frame" where
  "accurate_transform color_processor vs frame0 =
     (let has_alpha = FormatHasAlphaChannel (frame_format frame0);
          frame = frame_ConvertPixelFormat frame0
                    (if has_alpha then PIX_FMT_RGBA32F else PIX_FMT_RGB32F);
          frame = (if has_alpha \<and> premultiplied_alpha vs then frame_DisassociateAlpha frame else frame);
          frame = frame_ConvertFrame color_processor frame
      in if has_alpha
         then (if premultiplied_alpha vs then frame_ReassociateAlpha frame
               else frame_AssociateAlpha frame)
         else frame)"

text \<open>
  Lines 133 and 136 compute the new size in \<open>double\<close> and narrow the result to \<open>int\<close>.
  The model does not compute in \<open>double\<close>: the conversions \<open>static_cast<double>\<close> and
  \<open>rational::toDouble\<close>, the product, the quotient and Qt's \<open>qRound\<close> (with its narrowing
  to \<open>int\<close>) are parameters, over any carrier \<open>'d\<close> for the \<open>double\<close> values. The aspect
  ratio itself is an exact \<open>rational\<close>, and the file compares it exactly.
\<close>

record 'd double_ops =
  int_to_double :: "int \<Rightarrow> 'd"
  toDouble :: "rat \<Rightarrow> 'd"
  double_mul :: "'d \<Rightarrow> 'd \<Rightarrow> 'd"
  double_div :: "'d \<Rightarrow> 'd \<Rightarrow> 'd"
  qRound :: "'d \<Rightarrow> int"

text \<open>The frame's shape after the aspect-ratio check (lines 123-143).\<close>

definition aspect_params :: "'d double_ops \<Rightarrow> frame \<Rightarrow> video_params" where
  "aspect_params ops frame =
     (let frame_params = f_video_params frame
      in if f_sample_aspect_ratio frame \<noteq> 1 \<and> f_sample_aspect_ratio frame \<noteq> 0
         then (let new_width = vp_width frame_params;
                   new_height = vp_height frame_params;
                   (new_width, new_height) =
                      (if f_sample_aspect_ratio frame > 1
                       then (qRound ops (double_mul ops (int_to_double ops new_width)
                                           (toDouble ops (f_sample_aspect_ratio frame))),
                             new_height)
                       else (new_width,
                             qRound ops (double_div ops (int_to_double ops new_height)
                                           (toDouble ops (f_sample_aspect_ratio frame)))))
               in VideoParams new_width new_height (vp_format frame_params) (vp_divider frame_params))
         else frame_params)"

text \<open>
  The GPU colour path (lines 118-168). The processor is shared with the colour cache, so
  enabling it changes the cached object.
\<close>

definition fast_transform ::
  "'d double_ops \<Rightarrow> string \<Rightarrow> color_processor \<Rightarrow> video_stream \<Rightarrow> frame \<Rightarrow> video_params \<Rightarrow> texture \<Rightarrow> proxy
     \<Rightarrow> texture \<times> proxy" where
  "fast_transform ops key color_processor vs frame params footage_tex s =
     (let s = (if \<not> cp_enabled color_processor
               then emit [ColorProcessorEnable key (premultiplied_alpha vs)]
                      (s\<lparr>color_cache := (color_cache s)(key \<mapsto> color_processor\<lparr>cp_enabled := True\<rparr>)\<rparr>)
               else s);
          frame_params = aspect_params ops frame;
          dest_params = VideoParams (vp_width frame_params) (vp_height frame_params)
                          (vp_format params) (vp_divider frame_params);
          (associated_tex, s) = texture_cache_Get dest_params s;
          s = buffer_Attach associated_tex True s;
          s = emit [BufferBind, TextureBind (tex_id footage_tex),
                    glViewport (tex_width associated_tex) (tex_height associated_tex),
                    ProcessOpenGL key,
                    TextureRelease (tex_id footage_tex),
                    BufferRelease] s;
          s = buffer_Detach s
      in (associated_tex, s))"

text \<open>
  \<open>GetOCIOMethodForMode\<close> (a preference lookup, not part of the sources) is a parameter,
  as is the \<open>double\<close> arithmetic \<open>ops\<close>.
  The result is the texture reference inside the returned \<open>NodeValue\<close>.
\<close>

definition FrameToValue ::
  "'d double_ops \<Rightarrow> (render_mode \<Rightarrow> ocio_method) \<Rightarrow> frame \<Rightarrow> video_stream \<Rightarrow> video_params \<Rightarrow> render_mode \<Rightarrow> proxy
     \<Rightarrow> node_value \<times> proxy" where
  "FrameToValue ops GetOCIOMethodForMode frame0 vs params mode s0 =
     (let colorspace_match = get_colorspace_match_string vs;
          (color_processor, s) =
             (case color_cache s0 colorspace_match of
                Some cp \<Rightarrow> (cp, s0)
              | None \<Rightarrow>
                  (let cp = \<lparr>cp_input = colorspace vs, cp_reference = GetReferenceColorSpace vs,
                             cp_enabled = False\<rparr>
                   in (cp, s0\<lparr>color_cache := (color_cache s0)(colorspace_match \<mapsto> cp)\<rparr>)));
          ocio_method = GetOCIOMethodForMode mode;
          frame = (if ocio_method = kOCIOAccurate
                   then accurate_transform color_processor vs frame0
                   else frame0);
          (footage_tex_ref, s) = texture_cache_Get_frame frame s;
          (footage_tex_ref, s) =
             (if ocio_method = kOCIOFast
              then fast_transform ops colorspace_match color_processor vs frame params footage_tex_ref s
              else (footage_tex_ref, s))
      in (NodeValue kTexture (QTextureRef (Some footage_tex_ref)), s))"

subsection \<open>TextureToBuffer (lines 432-490)\<close>

text \<open>
  The frame is shared with the caller and written in place; the model returns it.
  \<open>matrix\<close> is an opaque tag for the \<open>QMatrix4x4\<close>. The second \<open>Attach\<close> (line 473) passes no
  clear flag; its default is taken to be \<open>false\<close>.
\<close>

definition TextureToBuffer :: "qvariant \<Rightarrow> frame \<Rightarrow> nat \<Rightarrow> proxy \<Rightarrow> frame \<times> proxy" where
  "TextureToBuffer tex_in frame matrix s0 =
     (case as_texture tex_in of
        None \<Rightarrow> (frame, s0)
      | Some texture \<Rightarrow>
          (let s = emit [glViewport (frame_width frame) (frame_height frame)] s0;
               (download_tex, s) =
                  (if frame_width frame \<noteq> tex_width texture \<or> frame_height frame \<noteq> tex_height texture
                   then (let (resized, s) = texture_cache_Get (f_video_params frame) s;
                             s = buffer_Attach resized True s;
                             s = emit [BufferBind, TextureBind (tex_id texture),
                                       BlitCopy (map_option sh_id (copy_pipeline s)) matrix,
                                       TextureRelease (tex_id texture),
                                       BufferRelease] s;
                             s = buffer_Detach s
                         in (resized, s))
                   else (texture, s));
               s = buffer_Attach download_tex False s;
               s = emit [BufferBind,
                         glPixelStorei (f_linesize_pixels frame),
                         glReadPixels (frame_width frame) (frame_height frame) (frame_format frame),
                         glPixelStorei 0,
                         BufferRelease] s;
               s = buffer_Detach s
           in (frame\<lparr>f_data := ReadPixels (tex_id download_tex) (frame_width frame) (frame_height frame)
                                   (frame_format frame) (f_linesize_pixels frame)\<rparr>, s)))"

subsection \<open>Close (lines 178-186)\<close>

text \<open>\<open>delete\<close> of a null pointer does nothing.\<close>

definition Close :: "proxy \<Rightarrow> proxy" where
  "Close s0 =
     (let s = s0\<lparr>shader_cache := Map.empty\<rparr>;
          s = buffer_Destroy s;
          s = s\<lparr>copy_pipeline := None\<rparr>;
          s = s\<lparr>gl_functions := None\<rparr>;
          s = (if ctx s \<noteq> None then emit [ContextDelete] s else s)
      in s\<lparr>ctx := None\<rparr>)"

subsection \<open>Descriptions of a render call, used to state its properties\<close>

text \<open>
  One iteration as the specification words it: set the iteration index, for an iteration
  after the first rebind a texture unit to the other destination (\<open>dst[(i + 1) % size]\<close>),
  then attach \<open>dst[i % size]\<close>, bind, draw, release and detach.
\<close>

definition iteration_calls :: "shader \<Rightarrow> texture list \<Rightarrow> nat \<Rightarrow> nat \<Rightarrow> gl_call list" where
  "iteration_calls sh dst unit i =
     [ShaderBind (sh_id sh),
      setUniformValue (sh_id sh) (Name ''ove_iteration'') (UIteration (int i)),
      ShaderRelease (sh_id sh)]
     @ (if i > 0 then [glActiveTexture unit, glBindTexture (tex_id (dst ! (Suc i mod length dst)))] else [])
     @ [BufferAttach (tex_id (dst ! (i mod length dst))) True, BufferBind, Blit (sh_id sh),
        BufferRelease, BufferDetach]"

text \<open>
  The inputs that take a texture unit, as the specification words it: the inputs with a
  live uniform location whose value is of a texture, buffer or footage kind; units are
  assigned in declaration order starting at 0, so the input at position \<open>u\<close> of the
  filtered parameter list gets unit \<open>u\<close>.
\<close>

definition resolved_type :: "node_value_database \<Rightarrow> node_param \<Rightarrow> data_type" where
  "resolved_type db p =
     (if nv_type (InputValueFromTable db (p_ptr p)) \<noteq> kNone
      then nv_type (InputValueFromTable db (p_ptr p)) else p_data_type p)"

definition binds_texture :: "gl_env \<Rightarrow> node_value_database \<Rightarrow> shader \<Rightarrow> node_param \<Rightarrow> bool" where
  "binds_texture env db sh p =
     (p_type p = kInput \<and> uniformLocation env sh (p_id p) > -1 \<and>
      (resolved_type db p = kFootage \<or> resolved_type db p = kTexture \<or> resolved_type db p = kBuffer))"

text \<open>The draw calls of a log.\<close>

fun is_draw :: "gl_call \<Rightarrow> bool" where
  "is_draw (Blit sh) = True"
| "is_draw _ = False"

text \<open>
  The destination textures of a render call: one, or two when the node iterates more than
  once and has a feedback input, created under the next free GL names.
\<close>

definition dst_textures :: "node \<Rightarrow> video_params \<Rightarrow> proxy \<Rightarrow> texture list" where
  "dst_textures n params s =
     (if ShaderIterations n > 1 \<and> ShaderIterativeInput n \<noteq> None
      then [\<lparr>tex_id = Suc (length (texture_cache s)), tex_params = params\<rparr>,
            \<lparr>tex_id = Suc (Suc (length (texture_cache s))), tex_params = params\<rparr>]
      else [\<lparr>tex_id = Suc (length (texture_cache s)), tex_params = params\<rparr>])"

text \<open>The calls of the three phases before the iterations.\<close>

definition compile_calls :: "gl_env \<Rightarrow> node \<Rightarrow> node_value_database \<Rightarrow> proxy \<Rightarrow> gl_call list" where
  "compile_calls env n db s =
     (case shader_cache s (ShaderID n db) of
        Some sh \<Rightarrow> []
      | None \<Rightarrow> (let sh = fst (getOrCompile env n db s)
                 in [ShaderCreate (sh_id sh), addFragmentShader (sh_id sh) (sh_frag sh),
                     addVertexShader (sh_id sh) (sh_vert sh), ShaderLink (sh_id sh)]))"

definition setup_calls :: "node \<Rightarrow> shader \<Rightarrow> rat \<Rightarrow> video_params \<Rightarrow> gl_call list" where
  "setup_calls n sh range_in params =
     [glViewport (effective_width params) (effective_height params),
      setUniformValue (sh_id sh) (Name ''ove_resolution'') (UResolution (vp_width params) (vp_height params))]
     @ (if IsBlock n \<and> n_block_type n = kTransition
        then [setUniformValue (sh_id sh) (Name ''ove_tprog_all'') (UProgress (GetTotalProgress n range_in)),
              setUniformValue (sh_id sh) (Name ''ove_tprog_out'') (UProgress (GetOutProgress n range_in)),
              setUniformValue (sh_id sh) (Name ''ove_tprog_in'') (UProgress (GetInProgress n range_in))]
        else [])"

text \<open>The locals after the \<open>foreach\<close> of a render call.\<close>

definition run_inputs :: "gl_env \<Rightarrow> node \<Rightarrow> node_value_database \<Rightarrow> proxy \<Rightarrow> inputs_state" where
  "run_inputs env n db s =
     ResolveInputs env n db (fst (getOrCompile env n db s)) (parameters n)
       \<lparr>input_texture_count = 0, iterative_input = 0, issued = []\<rparr>"

text \<open>
  The texture bound to each unit after a log of calls: \<open>glActiveTexture\<close> selects the unit,
  \<open>glBindTexture\<close> (and a texture's own \<open>Bind\<close> and \<open>Release\<close>) sets the active unit's
  texture, 0 being the empty texture. The state is the active unit and the bindings.
\<close>

fun apply_call :: "gl_call \<Rightarrow> nat \<times> (nat \<Rightarrow> nat) \<Rightarrow> nat \<times> (nat \<Rightarrow> nat)" where
  "apply_call (glActiveTexture u) (a, b) = (u, b)"
| "apply_call (glBindTexture t) (a, b) = (a, b(a := t))"
| "apply_call (TextureBind t) (a, b) = (a, b(a := t))"
| "apply_call (TextureRelease t) (a, b) = (a, b(a := 0))"
| "apply_call c (a, b) = (a, b)"

definition bound_textures :: "gl_call list \<Rightarrow> nat \<times> (nat \<Rightarrow> nat) \<Rightarrow> nat \<Rightarrow> nat" where
  "bound_textures cs ab = snd (foldl (\<lambda>ab c. apply_call c ab) ab cs)"

text \<open>The units a log selects, in order; the calls a function added to the log.\<close>

fun activated :: "gl_call list \<Rightarrow> nat list" where
  "activated [] = []"
| "activated (glActiveTexture u # cs) = u # activated cs"
| "activated (c # cs) = activated cs"

definition issued_by :: "proxy \<Rightarrow> proxy \<Rightarrow> gl_call list" where
  "issued_by s s' = drop (length (gl_log s)) (gl_log s')"

text \<open>
  The colour processor of a stream: the cached one for its match string, or a new one for
  its colour space and the project's reference space.
\<close>

definition stream_processor :: "proxy \<Rightarrow> video_stream \<Rightarrow> color_processor" where
  "stream_processor s vs =
     (case color_cache s (get_colorspace_match_string vs) of
        Some cp \<Rightarrow> cp
      | None \<Rightarrow> \<lparr>cp_input = colorspace vs, cp_reference = GetReferenceColorSpace vs, cp_enabled = False\<rparr>)"

text \<open>
  The CPU colour path as the specification words it: convert to a float format,
  disassociate premultiplied alpha if present, apply the processor's CPU transform,
  then reassociate or associate alpha.
\<close>

definition accurate_pixels :: "color_processor \<Rightarrow> bool \<Rightarrow> bool \<Rightarrow> pixels \<Rightarrow> pixels" where
  "accurate_pixels cp has_alpha premultiplied px =
     (let converted = ConvertPixelFormat (if has_alpha then PIX_FMT_RGBA32F else PIX_FMT_RGB32F) px;
          straight = (if has_alpha \<and> premultiplied then DisassociateAlpha converted else converted);
          transformed = ConvertFrame (cp_input cp) (cp_reference cp) straight
      in if has_alpha
         then (if premultiplied then ReassociateAlpha transformed else AssociateAlpha transformed)
         else transformed)"

subsection \<open>Concrete inputs\<close>

text \<open>
  A driver on which every program links and one on which none does; in both, a program's
  only active uniform is \<open>tex_in\<close>. An initialised proxy with empty caches. A node whose
  shader identity differs from its id, a three-pass node with a feedback input, a
  two-pass node whose declared feedback input \<open>feedback\<close> is not a uniform of its program
  (its other input \<open>tex_in\<close> is), and a two-pass node without inputs.
\<close>

definition env_ok :: gl_env where
  "env_ok = \<lparr>CodeDefaultFragment = ''default.frag'', CodeDefaultVertex = ''default.vert'',
             links = (\<lambda>frag vert. True),
             uniformLocation = (\<lambda>sh name. if name = ''tex_in'' then 0 else -1)\<rparr>"


definition tex_9 :: texture where
  "tex_9 = \<lparr>tex_id = 9, tex_params = VideoParams 4 4 PIX_FMT_RGBA8 1\<rparr>"

definition db_tex :: node_value_database where
  "db_tex = \<lparr>InputValueFromTable = (\<lambda>p. NodeValue kTexture (QTextureRef (Some tex_9))),
             table_Get = (\<lambda>p t. QInvalid)\<rparr>"

definition params_4x4 :: video_params where
  "params_4x4 = VideoParams 4 4 PIX_FMT_RGBA8 1"

definition proxy_ready :: proxy where
  "proxy_ready =
     \<lparr>ctx = Some 1, gl_functions = Some 1, shader_cache = Map.empty, texture_cache = [],
      color_cache = Map.empty, buffer = \<lparr>fb_created = True, fb_attachment = None\<rparr>,
      copy_pipeline = Some \<lparr>sh_id = 0, sh_frag = ''default.frag'', sh_vert = ''default.vert'', sh_linked = True\<rparr>,
      next_shader = 1, gl_log = []\<rparr>"

definition node_math :: node where
  "node_math =
     \<lparr>n_id = ''math'', ShaderID = (\<lambda>db. ''math.add''), ShaderVertexCode = (\<lambda>db. []),
      ShaderFragmentCode = (\<lambda>db. ''add.frag''), ShaderIterations = 1, ShaderIterativeInput = None,
      parameters = [], IsBlock = False, n_block_type = kClip,
      GetTotalProgress = (\<lambda>t. 0), GetOutProgress = (\<lambda>t. 0), GetInProgress = (\<lambda>t. 0)\<rparr>"

definition input_tex_in :: node_param where
  "input_tex_in = \<lparr>p_ptr = 7, p_type = kInput, p_id = ''tex_in'', p_data_type = kTexture,
                   p_IsArray = False, p_array = []\<rparr>"

definition node_blur :: node where
  "node_blur =
     \<lparr>n_id = ''blur'', ShaderID = (\<lambda>db. ''blur''), ShaderVertexCode = (\<lambda>db. []),
      ShaderFragmentCode = (\<lambda>db. ''blur.frag''), ShaderIterations = 3, ShaderIterativeInput = Some 7,
      parameters = [input_tex_in], IsBlock = False, n_block_type = kClip,
      GetTotalProgress = (\<lambda>t. 0), GetOutProgress = (\<lambda>t. 0), GetInProgress = (\<lambda>t. 0)\<rparr>"

definition input_feedback :: node_param where
  "input_feedback = \<lparr>p_ptr = 8, p_type = kInput, p_id = ''feedback'', p_data_type = kTexture,
                     p_IsArray = False, p_array = []\<rparr>"

definition node_stale :: node where
  "node_stale =
     \<lparr>n_id = ''stale'', ShaderID = (\<lambda>db. ''stale''), ShaderVertexCode = (\<lambda>db. []),
      ShaderFragmentCode = (\<lambda>db. ''stale.frag''), ShaderIterations = 2,
      ShaderIterativeInput = Some 8, parameters = [input_tex_in, input_feedback],
      IsBlock = False, n_block_type = kClip,
      GetTotalProgress = (\<lambda>t. 0), GetOutProgress = (\<lambda>t. 0), GetInProgress = (\<lambda>t. 0)\<rparr>"

definition node_twice :: node where
  "node_twice =
     \<lparr>n_id = ''twice'', ShaderID = (\<lambda>db. ''twice''), ShaderVertexCode = (\<lambda>db. []),
      ShaderFragmentCode = (\<lambda>db. ''twice.frag''), ShaderIterations = 2, ShaderIterativeInput = None,
      parameters = [], IsBlock = False, n_block_type = kClip,
      GetTotalProgress = (\<lambda>t. 0), GetOutProgress = (\<lambda>t. 0), GetInProgress = (\<lambda>t. 0)\<rparr>"

text \<open>
  Frames of 4 by 4 and 2 by 2 square pixels, a 4 by 4 frame of aspect ratio 2, and a
  premultiplied sRGB stream.
\<close>

definition frame_4x4 :: frame where
  "frame_4x4 = \<lparr>f_video_params = params_4x4, f_sample_aspect_ratio = 1, f_linesize_pixels = 4,
                f_data = Raw 0\<rparr>"

definition frame_2x2 :: frame where
  "frame_2x2 = \<lparr>f_video_params = VideoParams 2 2 PIX_FMT_RGBA8 1, f_sample_aspect_ratio = 1,
                f_linesize_pixels = 2, f_data = Raw 0\<rparr>"

definition frame_wide :: frame where
  "frame_wide = \<lparr>f_video_params = params_4x4, f_sample_aspect_ratio = 2, f_linesize_pixels = 4,
                 f_data = Raw 0\<rparr>"

definition stream_srgb :: video_stream where
  "stream_srgb = \<lparr>get_colorspace_match_string = ''srgb:premult'', colorspace = ''srgb'',
                  GetReferenceColorSpace = ''linear'', premultiplied_alpha = True\<rparr>"

text \<open>
  A placeholder for the \<open>double\<close> arithmetic, for calls that never reach it (it computes
  nothing). Preferences that map every render mode to one colour path, and a GL state in
  which unit 0 is active and every unit holds the empty texture.
\<close>

definition no_double :: "unit double_ops" where
  "no_double = \<lparr>int_to_double = (\<lambda>i. ()), toDouble = (\<lambda>r. ()), double_mul = (\<lambda>a b. ()),
                double_div = (\<lambda>a b. ()), qRound = (\<lambda>d. 0)\<rparr>"

definition always_fast :: "render_mode \<Rightarrow> ocio_method" where
  "always_fast m = kOCIOFast"

definition always_accurate :: "render_mode \<Rightarrow> ocio_method" where
  "always_accurate m = kOCIOAccurate"

definition units_empty :: "nat \<times> (nat \<Rightarrow> nat)" where
  "units_empty = (0, \<lambda>u. 0)"

section \<open>Properties\<close>

subsection \<open>Field-by-field effects of the steps\<close>

lemma emit_fields:
  "gl_log (emit cs s) = gl_log s @ cs"
  "shader_cache (emit cs s) = shader_cache s"
  "texture_cache (emit cs s) = texture_cache s"
  "color_cache (emit cs s) = color_cache s"
  "buffer (emit cs s) = buffer s"
  "copy_pipeline (emit cs s) = copy_pipeline s"
  "next_shader (emit cs s) = next_shader s"
  "ctx (emit cs s) = ctx s"
  "gl_functions (emit cs s) = gl_functions s"
  by (simp_all add: emit_def)

lemma buffer_Attach_fields:
  "gl_log (buffer_Attach t c s) = gl_log s @ [BufferAttach (tex_id t) c]"
  "shader_cache (buffer_Attach t c s) = shader_cache s"
  "texture_cache (buffer_Attach t c s) = texture_cache s"
  "color_cache (buffer_Attach t c s) = color_cache s"
  "copy_pipeline (buffer_Attach t c s) = copy_pipeline s"
  "next_shader (buffer_Attach t c s) = next_shader s"
  "buffer (buffer_Attach t c s) = (buffer s)\<lparr>fb_attachment := Some (tex_id t)\<rparr>"
  by (simp_all add: buffer_Attach_def emit_fields)

lemma buffer_Detach_fields:
  "gl_log (buffer_Detach s) = gl_log s @ [BufferDetach]"
  "shader_cache (buffer_Detach s) = shader_cache s"
  "texture_cache (buffer_Detach s) = texture_cache s"
  "color_cache (buffer_Detach s) = color_cache s"
  "copy_pipeline (buffer_Detach s) = copy_pipeline s"
  "next_shader (buffer_Detach s) = next_shader s"
  "buffer (buffer_Detach s) = (buffer s)\<lparr>fb_attachment := None\<rparr>"
  by (simp_all add: buffer_Detach_def emit_fields)

lemma texture_cache_Get_fields:
  "fst (texture_cache_Get p s) = \<lparr>tex_id = Suc (length (texture_cache s)), tex_params = p\<rparr>"
  "gl_log (snd (texture_cache_Get p s)) = gl_log s @ [TextureCacheGet (Suc (length (texture_cache s))) p]"
  "shader_cache (snd (texture_cache_Get p s)) = shader_cache s"
  "texture_cache (snd (texture_cache_Get p s)) = texture_cache s @ [\<lparr>tex_id = Suc (length (texture_cache s)), tex_params = p\<rparr>]"
  "color_cache (snd (texture_cache_Get p s)) = color_cache s"
  "copy_pipeline (snd (texture_cache_Get p s)) = copy_pipeline s"
  "next_shader (snd (texture_cache_Get p s)) = next_shader s"
  "buffer (snd (texture_cache_Get p s)) = buffer s"
  by (simp_all add: texture_cache_Get_def emit_fields Let_def)

lemma draw_iteration_fst:
  "0 \<le> iteration \<Longrightarrow> fst (draw_iteration sh dst unit iteration s) = dst ! (nat iteration mod length dst)"
  by (simp add: draw_iteration_def Let_def nat_mod_distrib)

lemma draw_iteration_log:
  "0 \<le> iteration \<Longrightarrow>
   gl_log (snd (draw_iteration sh dst unit iteration s)) = gl_log s @ iteration_calls sh dst unit (nat iteration)"
  by (simp add: draw_iteration_def Let_def iteration_calls_def emit_fields buffer_Attach_fields
        buffer_Detach_fields nat_mod_distrib nat_add_distrib)

lemma draw_iteration_fields:
  "shader_cache (snd (draw_iteration sh dst unit iteration s)) = shader_cache s"
  "texture_cache (snd (draw_iteration sh dst unit iteration s)) = texture_cache s"
  "color_cache (snd (draw_iteration sh dst unit iteration s)) = color_cache s"
  "copy_pipeline (snd (draw_iteration sh dst unit iteration s)) = copy_pipeline s"
  "next_shader (snd (draw_iteration sh dst unit iteration s)) = next_shader s"
  by (simp_all add: draw_iteration_def Let_def emit_fields buffer_Attach_fields buffer_Detach_fields)

lemma DrawLoop_log:
  "0 \<le> iteration \<Longrightarrow>
   gl_log (snd (DrawLoop n sh dst unit iteration (out, s))) =
     gl_log s @ concat (map (iteration_calls sh dst unit) [nat iteration ..< nat (ShaderIterations n)])"
proof (induction n sh dst unit iteration "(out, s)" arbitrary: out s rule: DrawLoop.induct)
  case (1 n sh dst unit iteration out s)
  show ?case
  proof (cases "iteration < ShaderIterations n")
    case True
    have up: "[nat iteration ..< nat (ShaderIterations n)]
                = nat iteration # [nat (iteration + 1) ..< nat (ShaderIterations n)]"
      using True 1(2) by (simp add: upt_conv_Cons nat_add_distrib)
    have "gl_log (snd (DrawLoop n sh dst unit iteration (out, s)))
            = gl_log (snd (DrawLoop n sh dst unit (iteration + 1)
                 (Some (fst (draw_iteration sh dst unit iteration s)),
                  snd (draw_iteration sh dst unit iteration s))))"
      using True by simp
    also have "\<dots> = gl_log (snd (draw_iteration sh dst unit iteration s))
                     @ concat (map (iteration_calls sh dst unit) [nat (iteration + 1) ..< nat (ShaderIterations n)])"
      using 1(1)[OF True] 1(2) by simp
    finally show ?thesis
      using 1(2) by (simp add: up draw_iteration_log)
  next
    case False
    then show ?thesis by simp
  qed
qed

lemma DrawLoop_fields:
  "shader_cache (snd (DrawLoop n sh dst unit iteration (out, s))) = shader_cache s \<and>
   texture_cache (snd (DrawLoop n sh dst unit iteration (out, s))) = texture_cache s \<and>
   color_cache (snd (DrawLoop n sh dst unit iteration (out, s))) = color_cache s \<and>
   copy_pipeline (snd (DrawLoop n sh dst unit iteration (out, s))) = copy_pipeline s \<and>
   next_shader (snd (DrawLoop n sh dst unit iteration (out, s))) = next_shader s"
proof (induction n sh dst unit iteration "(out, s)" arbitrary: out s rule: DrawLoop.induct)
  case (1 n sh dst unit iteration out s)
  show ?case
  proof (cases "iteration < ShaderIterations n")
    case True
    show ?thesis
      using 1(1)[OF True] True by (simp add: draw_iteration_fields)
  next
    case False
    then show ?thesis by simp
  qed
qed

lemma DrawLoop_output:
  "0 \<le> iteration \<Longrightarrow>
   fst (DrawLoop n sh dst unit iteration (out, s)) =
     (if iteration < ShaderIterations n
      then Some (dst ! ((nat (ShaderIterations n) - 1) mod length dst))
      else out)"
proof (induction n sh dst unit iteration "(out, s)" arbitrary: out s rule: DrawLoop.induct)
  case (1 n sh dst unit iteration out s)
  show ?case
  proof (cases "iteration < ShaderIterations n")
    case True
    show ?thesis
    proof (cases "iteration + 1 < ShaderIterations n")
      case more: True
      then show ?thesis using 1(1)[OF True] True 1(2) by simp
    next
      case last: False
      then have "nat (ShaderIterations n) - 1 = nat iteration" using True 1(2) by linarith
      then show ?thesis using 1(1)[OF True] True last 1(2) by (simp add: draw_iteration_fst)
    qed
  next
    case False
    then show ?thesis by simp
  qed
qed

lemma bind_texture_input_fields:
  "input_texture_count (bind_texture_input env n sh p loc v st) = Suc (input_texture_count st)"
  "iterative_input (bind_texture_input env n sh p loc v st) =
     (if Some (p_ptr p) = ShaderIterativeInput n then input_texture_count st else iterative_input st)"
  "filter is_draw (issued (bind_texture_input env n sh p loc v st)) = filter is_draw (issued st)"
  by (simp_all add: bind_texture_input_def Let_def split: option.splits)

lemma bind_input_count:
  "input_texture_count (bind_input env n db sh p loc st) =
     (if resolved_type db p = kFootage \<or> resolved_type db p = kTexture \<or> resolved_type db p = kBuffer
      then Suc (input_texture_count st) else input_texture_count st)"
  by (simp add: bind_input_def resolved_type_def Let_def bind_texture_input_fields split: data_type.splits)

lemma bind_input_iterative:
  "iterative_input (bind_input env n db sh p loc st) =
     (if (resolved_type db p = kFootage \<or> resolved_type db p = kTexture \<or> resolved_type db p = kBuffer)
         \<and> Some (p_ptr p) = ShaderIterativeInput n
      then input_texture_count st else iterative_input st)"
  by (simp add: bind_input_def resolved_type_def Let_def bind_texture_input_fields split: data_type.splits)

lemma bind_input_draw:
  "filter is_draw (issued (bind_input env n db sh p loc st)) = filter is_draw (issued st)"
  by (simp add: bind_input_def Let_def bind_texture_input_fields split: data_type.splits)

lemma bind_parameter_count:
  "input_texture_count (bind_parameter env n db sh p st) =
     (if binds_texture env db sh p then Suc (input_texture_count st) else input_texture_count st)"
  by (simp add: bind_parameter_def binds_texture_def Let_def bind_input_count)

lemma bind_parameter_iterative:
  "iterative_input (bind_parameter env n db sh p st) =
     (if binds_texture env db sh p \<and> Some (p_ptr p) = ShaderIterativeInput n
      then input_texture_count st else iterative_input st)"
  by (simp add: bind_parameter_def binds_texture_def Let_def bind_input_iterative)

lemma bind_parameter_draw:
  "filter is_draw (issued (bind_parameter env n db sh p st)) = filter is_draw (issued st)"
  by (simp add: bind_parameter_def Let_def bind_input_draw)

lemma ResolveInputs_count:
  "input_texture_count (ResolveInputs env n db sh ps st) =
     input_texture_count st + length (filter (binds_texture env db sh) ps)"
  by (induction ps arbitrary: st) (simp_all add: bind_parameter_count)

lemma ResolveInputs_draw:
  "filter is_draw (issued (ResolveInputs env n db sh ps st)) = filter is_draw (issued st)"
  by (induction ps arbitrary: st) (simp_all add: bind_parameter_draw)

lemma ResolveInputs_iterative_other:
  "\<forall>q \<in> set ps. Some (p_ptr q) \<noteq> ShaderIterativeInput n \<Longrightarrow>
   iterative_input (ResolveInputs env n db sh ps st) = iterative_input st"
  by (induction ps arbitrary: st) (simp_all add: bind_parameter_iterative)

lemma ResolveInputs_iterative:
  "distinct (map p_ptr ps) \<Longrightarrow> u < length (filter (binds_texture env db sh) ps) \<Longrightarrow>
   ShaderIterativeInput n = Some (p_ptr (filter (binds_texture env db sh) ps ! u)) \<Longrightarrow>
   iterative_input (ResolveInputs env n db sh ps st) = input_texture_count st + u"
proof (induction ps arbitrary: st u)
  case Nil
  then show ?case by simp
next
  case (Cons p ps)
  show ?case
  proof (cases "binds_texture env db sh p")
    case False
    then show ?thesis
      using Cons.IH[of u "bind_parameter env n db sh p st"] Cons.prems
      by (simp add: bind_parameter_count)
  next
    case True
    show ?thesis
    proof (cases u)
      case 0
      then have fb: "ShaderIterativeInput n = Some (p_ptr p)"
        using Cons.prems True by simp
      have "\<forall>q \<in> set ps. Some (p_ptr q) \<noteq> ShaderIterativeInput n"
        using Cons.prems(1) fb by (auto simp: image_iff)
      then show ?thesis
        using True fb 0 by (simp add: ResolveInputs_iterative_other bind_parameter_iterative)
    next
      case (Suc v)
      then show ?thesis
        using Cons.IH[of v "bind_parameter env n db sh p st"] Cons.prems True
        by (simp add: bind_parameter_count)
    qed
  qed
qed

lemma getOrCompile_fields:
  "gl_log (snd (getOrCompile env n db s)) = gl_log s @ compile_calls env n db s"
  "texture_cache (snd (getOrCompile env n db s)) = texture_cache s"
  "color_cache (snd (getOrCompile env n db s)) = color_cache s"
  "copy_pipeline (snd (getOrCompile env n db s)) = copy_pipeline s"
  by (simp_all add: getOrCompile_def compile_calls_def Let_def emit_fields split: option.splits)

lemma RunNodeAccelerated_log:
  "gl_log (snd (RunNodeAccelerated env n r db out params s)) =
     gl_log s @ compile_calls env n db s
     @ map (\<lambda>t. TextureCacheGet (tex_id t) params) (dst_textures n params s)
     @ [ShaderBind (sh_id (fst (getOrCompile env n db s)))]
     @ issued (run_inputs env n db s)
     @ setup_calls n (fst (getOrCompile env n db s)) r params
     @ concat (map (iteration_calls (fst (getOrCompile env n db s)) (dst_textures n params s)
                      (iterative_input (run_inputs env n db s)))
                 [0 ..< nat (ShaderIterations n)])
     @ release_textures (input_texture_count (run_inputs env n db s))
     @ [ShaderRelease (sh_id (fst (getOrCompile env n db s)))]"
  by (simp add: RunNodeAccelerated_def Let_def case_prod_beta emit_fields texture_cache_Get_fields
        getOrCompile_fields DrawLoop_log dst_textures_def setup_calls_def run_inputs_def
      del: DrawLoop.simps ResolveInputs.simps)

lemma RunNodeAccelerated_texture_cache:
  "texture_cache (snd (RunNodeAccelerated env n r db out params s)) =
     texture_cache s @ dst_textures n params s"
  by (simp add: RunNodeAccelerated_def Let_def case_prod_beta emit_fields texture_cache_Get_fields
        getOrCompile_fields DrawLoop_fields dst_textures_def
      del: DrawLoop.simps ResolveInputs.simps)


lemma RunNodeAccelerated_output:
  "fst (RunNodeAccelerated env n r db out params s) =
     out @ [NodeValue kTexture (QTextureRef
        (if 0 < ShaderIterations n
         then Some (dst_textures n params s ! ((nat (ShaderIterations n) - 1) mod length (dst_textures n params s)))
         else None))]"
proof (cases "ShaderIterativeInput n")
  case None
  then show ?thesis
    by (simp add: RunNodeAccelerated_def Let_def case_prod_beta emit_fields texture_cache_Get_fields
          getOrCompile_fields DrawLoop_output dst_textures_def
        del: DrawLoop.simps ResolveInputs.simps)
next
  case (Some fb)
  then show ?thesis
    by (cases "1 < ShaderIterations n")
       (simp_all add: RunNodeAccelerated_def Let_def case_prod_beta emit_fields texture_cache_Get_fields
          getOrCompile_fields DrawLoop_output dst_textures_def
        del: DrawLoop.simps ResolveInputs.simps)
qed

subsection \<open>The shader cache\<close>


text \<open>
  When the shader identity of a node is its id, the second fetch finds what the first
  stored: the same instance, the same state, no further compilation.
\<close>

lemma getOrCompile_hit_under_id:
  assumes "ShaderID n db = n_id n"
  shows "getOrCompile env n db (snd (getOrCompile env n db s)) =
           (fst (getOrCompile env n db s), snd (getOrCompile env n db s))"
  using assms by (simp add: getOrCompile_def Let_def emit_def split: option.splits)

text \<open>
  C1. The claim: fetching the shader twice for the same node and inputs gives the same
  program instance and compiles once. The fetch looks up under \<open>ShaderID(input_params)\<close>
  (line 194) but stores under \<open>id()\<close> (line 216). For a node whose shader identity is not
  its id the second fetch misses again: it creates, compiles and links a second
  instance.
\<close>

theorem second_fetch_compiles_again:
  "fst (getOrCompile env_ok node_math db_tex proxy_ready)
     = \<lparr>sh_id = 1, sh_frag = ''add.frag'', sh_vert = ''default.vert'', sh_linked = True\<rparr>
   \<and> fst (getOrCompile env_ok node_math db_tex (snd (getOrCompile env_ok node_math db_tex proxy_ready)))
     = \<lparr>sh_id = 2, sh_frag = ''add.frag'', sh_vert = ''default.vert'', sh_linked = True\<rparr>
   \<and> gl_log (snd (getOrCompile env_ok node_math db_tex (snd (getOrCompile env_ok node_math db_tex proxy_ready))))
     = [ShaderCreate 1, addFragmentShader 1 ''add.frag'', addVertexShader 1 ''default.vert'', ShaderLink 1,
        ShaderCreate 2, addFragmentShader 2 ''add.frag'', addVertexShader 2 ''default.vert'', ShaderLink 2]"
  by (simp add: getOrCompile_def Let_def emit_def env_ok_def node_math_def proxy_ready_def)




subsection \<open>The render call: draws, destinations and texture units\<close>

lemma draws_iteration_calls: "filter is_draw (iteration_calls sh dst u i) = [Blit (sh_id sh)]"
  by (simp add: iteration_calls_def)

lemma iteration_calls_single:
  "iteration_calls sh [t] u =
     (\<lambda>i. [ShaderBind (sh_id sh),
           setUniformValue (sh_id sh) (Name ''ove_iteration'') (UIteration (int i)),
           ShaderRelease (sh_id sh)]
          @ (if 0 < i then [glActiveTexture u, glBindTexture (tex_id t)] else [])
          @ [BufferAttach (tex_id t) True, BufferBind, Blit (sh_id sh), BufferRelease, BufferDetach])"
  by (rule ext) (simp add: iteration_calls_def)

lemma iteration_calls_pair:
  "iteration_calls sh [t0, t1] u =
     (\<lambda>i. [ShaderBind (sh_id sh),
           setUniformValue (sh_id sh) (Name ''ove_iteration'') (UIteration (int i)),
           ShaderRelease (sh_id sh)]
          @ (if 0 < i then [glActiveTexture u, glBindTexture (tex_id ([t0, t1] ! (Suc i mod 2)))] else [])
          @ [BufferAttach (tex_id ([t0, t1] ! (i mod 2))) True, BufferBind, Blit (sh_id sh),
             BufferRelease, BufferDetach])"
  by (rule ext) (simp add: iteration_calls_def numeral_2_eq_2)

lemma draws_iterations:
  "filter is_draw (concat (map (iteration_calls sh dst u) xs)) = replicate (length xs) (Blit (sh_id sh))"
  by (induction xs) (simp_all add: draws_iteration_calls)

lemma draws_release: "filter is_draw (release_textures c) = []"
  by (induction c) simp_all

lemma draws_compile: "filter is_draw (compile_calls env n db s) = []"
  by (simp add: compile_calls_def Let_def split: option.splits)

lemma draws_setup: "filter is_draw (setup_calls n sh r params) = []"
  by (simp add: setup_calls_def)

lemma draws_inputs: "filter is_draw (issued (run_inputs env n db s)) = []"
  by (simp add: run_inputs_def ResolveInputs_draw)

lemma RunNodeAccelerated_draws:
  "filter is_draw (issued_by s (snd (RunNodeAccelerated env n r db out params s))) =
     replicate (nat (ShaderIterations n)) (Blit (sh_id (fst (getOrCompile env n db s))))"
  by (simp add: issued_by_def RunNodeAccelerated_log draws_iterations draws_release draws_compile
        draws_setup draws_inputs o_def)

lemma run_inputs_no_feedback:
  "ShaderIterativeInput n = None \<Longrightarrow> iterative_input (run_inputs env n db s) = 0"
  by (simp add: run_inputs_def ResolveInputs_iterative_other)

lemma run_inputs_feedback:
  "distinct (map p_ptr (parameters n)) \<Longrightarrow>
   u < length (filter (binds_texture env db (fst (getOrCompile env n db s))) (parameters n)) \<Longrightarrow>
   ShaderIterativeInput n =
     Some (p_ptr (filter (binds_texture env db (fst (getOrCompile env n db s))) (parameters n) ! u)) \<Longrightarrow>
   iterative_input (run_inputs env n db s) = u"
  by (simp add: run_inputs_def ResolveInputs_iterative)

lemma run_inputs_count:
  "input_texture_count (run_inputs env n db s) =
     length (filter (binds_texture env db (fst (getOrCompile env n db s))) (parameters n))"
  by (simp add: run_inputs_def ResolveInputs_count)

text \<open>
  C10. A node with more than one iteration and no feedback input: the call creates one
  destination texture, draws once per iteration, every iteration attaches that texture
  (and an iteration after the first binds it to unit 0), and it is the output.
\<close>

theorem single_target_without_feedback:
  assumes "1 < ShaderIterations n" and "ShaderIterativeInput n = None"
  shows "texture_cache (snd (RunNodeAccelerated env n r db out params s)) =
           texture_cache s @ [\<lparr>tex_id = Suc (length (texture_cache s)), tex_params = params\<rparr>]
       \<and> filter is_draw (issued_by s (snd (RunNodeAccelerated env n r db out params s))) =
           replicate (nat (ShaderIterations n)) (Blit (sh_id (fst (getOrCompile env n db s))))
       \<and> (\<exists>pre. issued_by s (snd (RunNodeAccelerated env n r db out params s)) =
             pre
             @ concat (map (\<lambda>i.
                  [ShaderBind (sh_id (fst (getOrCompile env n db s))),
                   setUniformValue (sh_id (fst (getOrCompile env n db s))) (Name ''ove_iteration'') (UIteration (int i)),
                   ShaderRelease (sh_id (fst (getOrCompile env n db s)))]
                  @ (if 0 < i then [glActiveTexture 0, glBindTexture (Suc (length (texture_cache s)))] else [])
                  @ [BufferAttach (Suc (length (texture_cache s))) True, BufferBind,
                     Blit (sh_id (fst (getOrCompile env n db s))), BufferRelease, BufferDetach])
                [0 ..< nat (ShaderIterations n)])
             @ release_textures (input_texture_count (run_inputs env n db s))
             @ [ShaderRelease (sh_id (fst (getOrCompile env n db s)))])
       \<and> fst (RunNodeAccelerated env n r db out params s) =
           out @ [NodeValue kTexture (QTextureRef
                    (Some \<lparr>tex_id = Suc (length (texture_cache s)), tex_params = params\<rparr>))]"
proof -
  have dst: "dst_textures n params s = [\<lparr>tex_id = Suc (length (texture_cache s)), tex_params = params\<rparr>]"
    using assms by (simp add: dst_textures_def)
  have a: "texture_cache (snd (RunNodeAccelerated env n r db out params s)) =
           texture_cache s @ [\<lparr>tex_id = Suc (length (texture_cache s)), tex_params = params\<rparr>]"
    by (simp add: RunNodeAccelerated_texture_cache dst)
  have c: "issued_by s (snd (RunNodeAccelerated env n r db out params s)) =
             (compile_calls env n db s
              @ [TextureCacheGet (Suc (length (texture_cache s))) params]
              @ [ShaderBind (sh_id (fst (getOrCompile env n db s)))]
              @ issued (run_inputs env n db s)
              @ setup_calls n (fst (getOrCompile env n db s)) r params)
             @ concat (map (\<lambda>i.
                  [ShaderBind (sh_id (fst (getOrCompile env n db s))),
                   setUniformValue (sh_id (fst (getOrCompile env n db s))) (Name ''ove_iteration'') (UIteration (int i)),
                   ShaderRelease (sh_id (fst (getOrCompile env n db s)))]
                  @ (if 0 < i then [glActiveTexture 0, glBindTexture (Suc (length (texture_cache s)))] else [])
                  @ [BufferAttach (Suc (length (texture_cache s))) True, BufferBind,
                     Blit (sh_id (fst (getOrCompile env n db s))), BufferRelease, BufferDetach])
                [0 ..< nat (ShaderIterations n)])
             @ release_textures (input_texture_count (run_inputs env n db s))
             @ [ShaderRelease (sh_id (fst (getOrCompile env n db s)))]"
    using assms(2)
    by (simp add: issued_by_def RunNodeAccelerated_log dst run_inputs_no_feedback iteration_calls_single cong: if_cong)
  have d: "fst (RunNodeAccelerated env n r db out params s) =
           out @ [NodeValue kTexture (QTextureRef
                    (Some \<lparr>tex_id = Suc (length (texture_cache s)), tex_params = params\<rparr>))]"
    using assms(1) by (simp add: RunNodeAccelerated_output dst)
  from a RunNodeAccelerated_draws c d show ?thesis by blast
qed

theorem single_target_without_feedback_witness:
  "1 < ShaderIterations node_twice \<and> ShaderIterativeInput node_twice = None
   \<and> texture_cache (snd (RunNodeAccelerated env_ok node_twice 0 db_tex [] params_4x4 proxy_ready)) =
        [\<lparr>tex_id = 1, tex_params = params_4x4\<rparr>]
   \<and> filter is_draw (issued_by proxy_ready (snd (RunNodeAccelerated env_ok node_twice 0 db_tex [] params_4x4 proxy_ready))) =
        [Blit 1, Blit 1]
   \<and> fst (RunNodeAccelerated env_ok node_twice 0 db_tex [] params_4x4 proxy_ready) =
        [NodeValue kTexture (QTextureRef (Some \<lparr>tex_id = 1, tex_params = params_4x4\<rparr>))]"
proof -
  have k: "1 < ShaderIterations node_twice" and fb: "ShaderIterativeInput node_twice = None"
    by (simp_all add: node_twice_def)
  have sh: "sh_id (fst (getOrCompile env_ok node_twice db_tex proxy_ready)) = 1"
    by (simp add: getOrCompile_def Let_def node_twice_def proxy_ready_def)
  have tc: "texture_cache proxy_ready = []"
    by (simp add: proxy_ready_def)
  have K: "nat (ShaderIterations node_twice) = Suc (Suc 0)"
    by (simp add: node_twice_def)
  show ?thesis
    using k fb single_target_without_feedback[OF k fb, of env_ok 0 db_tex "[]" params_4x4 proxy_ready]
    by (simp add: sh tc K)
qed

lemma node_blur_texture_inputs:
  "filter (binds_texture env_ok db_tex sh) (parameters node_blur) = [input_tex_in]"
  by (simp add: node_blur_def binds_texture_def resolved_type_def env_ok_def db_tex_def
        input_tex_in_def NodeValue_def)

text \<open>
  C5, as the code has it. A node with \<open>K > 1\<close> iterations and a feedback input: the call
  creates exactly two destination textures, draws exactly \<open>K\<close> times, iteration \<open>i\<close> attaches
  \<open>dst[i mod 2]\<close>, an iteration \<open>i > 0\<close> first rebinds one texture unit to
  \<open>dst[(i + 1) mod 2]\<close>, the destination of iteration \<open>i - 1\<close>, and the destination of the
  last iteration is the output. When the feedback input took unit \<open>u\<close> while the inputs were
  bound (it is the \<open>u\<close>-th of the inputs bound as textures, the parameters being distinct
  objects), the unit rebound is \<open>u\<close>.
\<close>

theorem ping_pong_with_feedback:
  assumes "1 < ShaderIterations n"
    and "ShaderIterativeInput n \<noteq> None"
    and "sh = fst (getOrCompile env n db s)"
    and "t0 = \<lparr>tex_id = Suc (length (texture_cache s)), tex_params = params\<rparr>"
    and "t1 = \<lparr>tex_id = Suc (Suc (length (texture_cache s))), tex_params = params\<rparr>"
  shows "texture_cache (snd (RunNodeAccelerated env n r db out params s)) = texture_cache s @ [t0, t1]
       \<and> filter is_draw (issued_by s (snd (RunNodeAccelerated env n r db out params s))) =
           replicate (nat (ShaderIterations n)) (Blit (sh_id sh))
       \<and> (\<exists>pre unit.
             issued_by s (snd (RunNodeAccelerated env n r db out params s)) =
               pre
               @ concat (map (\<lambda>i.
                    [ShaderBind (sh_id sh),
                     setUniformValue (sh_id sh) (Name ''ove_iteration'') (UIteration (int i)),
                     ShaderRelease (sh_id sh)]
                    @ (if 0 < i
                       then [glActiveTexture unit, glBindTexture (tex_id ([t0, t1] ! (Suc i mod 2)))]
                       else [])
                    @ [BufferAttach (tex_id ([t0, t1] ! (i mod 2))) True, BufferBind,
                       Blit (sh_id sh), BufferRelease, BufferDetach])
                  [0 ..< nat (ShaderIterations n)])
               @ release_textures (input_texture_count (run_inputs env n db s))
               @ [ShaderRelease (sh_id sh)]
           \<and> (\<forall>u. distinct (map p_ptr (parameters n))
                   \<and> u < length (filter (binds_texture env db sh) (parameters n))
                   \<and> ShaderIterativeInput n =
                        Some (p_ptr (filter (binds_texture env db sh) (parameters n) ! u))
                   \<longrightarrow> unit = u))
       \<and> fst (RunNodeAccelerated env n r db out params s) =
           out @ [NodeValue kTexture (QTextureRef (Some ([t0, t1] ! ((nat (ShaderIterations n) - 1) mod 2))))]"
proof -
  define unit where "unit = iterative_input (run_inputs env n db s)"
  define pre where "pre = compile_calls env n db s
              @ map (\<lambda>t. TextureCacheGet (tex_id t) params) [t0, t1]
              @ [ShaderBind (sh_id sh)]
              @ issued (run_inputs env n db s)
              @ setup_calls n sh r params"
  have dst: "dst_textures n params s = [t0, t1]"
    using assms by (simp add: dst_textures_def)
  have a: "texture_cache (snd (RunNodeAccelerated env n r db out params s)) = texture_cache s @ [t0, t1]"
    by (simp add: RunNodeAccelerated_texture_cache dst)
  have b: "filter is_draw (issued_by s (snd (RunNodeAccelerated env n r db out params s))) =
           replicate (nat (ShaderIterations n)) (Blit (sh_id sh))"
    unfolding assms(3) by (rule RunNodeAccelerated_draws)
  have c: "issued_by s (snd (RunNodeAccelerated env n r db out params s)) =
             pre
             @ concat (map (\<lambda>i.
                  [ShaderBind (sh_id sh),
                   setUniformValue (sh_id sh) (Name ''ove_iteration'') (UIteration (int i)),
                   ShaderRelease (sh_id sh)]
                  @ (if 0 < i
                     then [glActiveTexture unit, glBindTexture (tex_id ([t0, t1] ! (Suc i mod 2)))]
                     else [])
                  @ [BufferAttach (tex_id ([t0, t1] ! (i mod 2))) True, BufferBind,
                     Blit (sh_id sh), BufferRelease, BufferDetach])
                [0 ..< nat (ShaderIterations n)])
             @ release_textures (input_texture_count (run_inputs env n db s))
             @ [ShaderRelease (sh_id sh)]"
    unfolding pre_def unit_def assms(3)
    by (simp add: issued_by_def RunNodeAccelerated_log dst iteration_calls_pair)
  have u: "\<forall>u. distinct (map p_ptr (parameters n))
               \<and> u < length (filter (binds_texture env db sh) (parameters n))
               \<and> ShaderIterativeInput n =
                    Some (p_ptr (filter (binds_texture env db sh) (parameters n) ! u))
               \<longrightarrow> unit = u"
    unfolding unit_def assms(3) using run_inputs_feedback by blast
  have d: "fst (RunNodeAccelerated env n r db out params s) =
           out @ [NodeValue kTexture (QTextureRef (Some ([t0, t1] ! ((nat (ShaderIterations n) - 1) mod 2))))]"
    using assms(1) by (simp add: RunNodeAccelerated_output dst numeral_2_eq_2)
  from c u have e: "\<exists>pre unit.
             issued_by s (snd (RunNodeAccelerated env n r db out params s)) =
               pre
               @ concat (map (\<lambda>i.
                    [ShaderBind (sh_id sh),
                     setUniformValue (sh_id sh) (Name ''ove_iteration'') (UIteration (int i)),
                     ShaderRelease (sh_id sh)]
                    @ (if 0 < i
                       then [glActiveTexture unit, glBindTexture (tex_id ([t0, t1] ! (Suc i mod 2)))]
                       else [])
                    @ [BufferAttach (tex_id ([t0, t1] ! (i mod 2))) True, BufferBind,
                       Blit (sh_id sh), BufferRelease, BufferDetach])
                  [0 ..< nat (ShaderIterations n)])
               @ release_textures (input_texture_count (run_inputs env n db s))
               @ [ShaderRelease (sh_id sh)]
           \<and> (\<forall>u. distinct (map p_ptr (parameters n))
                   \<and> u < length (filter (binds_texture env db sh) (parameters n))
                   \<and> ShaderIterativeInput n =
                        Some (p_ptr (filter (binds_texture env db sh) (parameters n) ! u))
                   \<longrightarrow> unit = u)"
    by (intro exI[of _ pre] exI[of _ unit] conjI)
  from a b e d show ?thesis by (intro conjI)
qed

theorem ping_pong_with_feedback_witness:
  "1 < ShaderIterations node_blur
   \<and> ShaderIterativeInput node_blur \<noteq> None
   \<and> distinct (map p_ptr (parameters node_blur))
   \<and> 0 < length (filter (binds_texture env_ok db_tex (fst (getOrCompile env_ok node_blur db_tex proxy_ready)))
                   (parameters node_blur))
   \<and> ShaderIterativeInput node_blur =
        Some (p_ptr (filter (binds_texture env_ok db_tex (fst (getOrCompile env_ok node_blur db_tex proxy_ready)))
                       (parameters node_blur) ! 0))
   \<and> texture_cache (snd (RunNodeAccelerated env_ok node_blur 0 db_tex [] params_4x4 proxy_ready)) =
        [\<lparr>tex_id = 1, tex_params = params_4x4\<rparr>, \<lparr>tex_id = 2, tex_params = params_4x4\<rparr>]
   \<and> filter is_draw (issued_by proxy_ready (snd (RunNodeAccelerated env_ok node_blur 0 db_tex [] params_4x4 proxy_ready))) =
        [Blit 1, Blit 1, Blit 1]
   \<and> fst (RunNodeAccelerated env_ok node_blur 0 db_tex [] params_4x4 proxy_ready) =
        [NodeValue kTexture (QTextureRef (Some \<lparr>tex_id = 1, tex_params = params_4x4\<rparr>))]"
proof -
  have k: "1 < ShaderIterations node_blur"
    and fbn: "ShaderIterativeInput node_blur \<noteq> None"
    and d: "distinct (map p_ptr (parameters node_blur))"
    by (simp_all add: node_blur_def)
  have f: "filter (binds_texture env_ok db_tex (fst (getOrCompile env_ok node_blur db_tex proxy_ready)))
             (parameters node_blur) = [input_tex_in]"
    by (rule node_blur_texture_inputs)
  have u: "0 < length (filter (binds_texture env_ok db_tex (fst (getOrCompile env_ok node_blur db_tex proxy_ready)))
                        (parameters node_blur))"
    by (simp add: f)
  have fb: "ShaderIterativeInput node_blur =
              Some (p_ptr (filter (binds_texture env_ok db_tex (fst (getOrCompile env_ok node_blur db_tex proxy_ready)))
                             (parameters node_blur) ! 0))"
    by (simp add: f) (simp add: node_blur_def input_tex_in_def)
  have sh: "sh_id (fst (getOrCompile env_ok node_blur db_tex proxy_ready)) = 1"
    by (simp add: getOrCompile_def Let_def node_blur_def proxy_ready_def)
  have tc: "texture_cache proxy_ready = []"
    by (simp add: proxy_ready_def)
  have K: "nat (ShaderIterations node_blur) = Suc (Suc (Suc 0))"
    by (simp add: node_blur_def)
  show ?thesis
    using k fbn d u fb ping_pong_with_feedback[OF k fbn refl refl refl,
            where env = env_ok and db = db_tex and s = proxy_ready and params = params_4x4
              and r = 0 and out = "[]"]
    by (simp add: sh tc K)
qed

text \<open>
  C5, the claim as stated fails: it says the unit rebound is the feedback input's. The
  unit is the local \<open>iterative_input\<close>, which starts at 0 (line 222) and is set only when
  the feedback input is bound as a texture (lines 340-342). The two-pass node below
  declares the feedback input \<open>feedback\<close>, which is not a uniform of its program and gets
  no unit; unit 0 goes to its other input \<open>tex_in\<close> (texture 9), and the second iteration
  rebinds that unit to the first destination (texture 1).
\<close>

theorem unbound_feedback_rebinds_unit_zero:
  "1 < ShaderIterations node_stale
   \<and> ShaderIterativeInput node_stale = Some (p_ptr input_feedback)
   \<and> parameters node_stale = [input_tex_in, input_feedback]
   \<and> uniformLocation env_ok (fst (getOrCompile env_ok node_stale db_tex proxy_ready)) (p_id input_feedback) = - 1
   \<and> issued_by proxy_ready (snd (RunNodeAccelerated env_ok node_stale 0 db_tex [] params_4x4 proxy_ready)) =
       [ShaderCreate 1, addFragmentShader 1 ''stale.frag'', addVertexShader 1 ''default.vert'', ShaderLink 1,
        TextureCacheGet 1 params_4x4, TextureCacheGet 2 params_4x4,
        ShaderBind 1,
        glActiveTexture 0, glBindTexture 9, setUniformValue 1 (Location 0) (UTextureUnit 0), PrepareToDraw,
        glViewport 4 4, setUniformValue 1 (Name ''ove_resolution'') (UResolution 4 4),
        ShaderBind 1, setUniformValue 1 (Name ''ove_iteration'') (UIteration 0), ShaderRelease 1,
        BufferAttach 1 True, BufferBind, Blit 1, BufferRelease, BufferDetach,
        ShaderBind 1, setUniformValue 1 (Name ''ove_iteration'') (UIteration 1), ShaderRelease 1,
        glActiveTexture 0, glBindTexture 1,
        BufferAttach 2 True, BufferBind, Blit 1, BufferRelease, BufferDetach,
        glActiveTexture 0, glBindTexture 0,
        ShaderRelease 1]"
  by (simp add: issued_by_def RunNodeAccelerated_log compile_calls_def getOrCompile_def Let_def
        dst_textures_def run_inputs_def bind_parameter_def bind_input_def bind_texture_input_def
        setup_calls_def iteration_calls_def effective_width_def effective_height_def
        node_stale_def input_tex_in_def input_feedback_def proxy_ready_def env_ok_def db_tex_def
        tex_9_def NodeValue_def params_4x4_def VideoParams_def upt_rec)

lemma release_descending:
  "release_textures c = concat (map (\<lambda>u. [glActiveTexture u, glBindTexture 0]) (rev [0 ..< c]))"
  by (induction c) simp_all

lemma replay_release:
  "snd (foldl (\<lambda>ab c. apply_call c ab) (a, b) (release_textures c)) u = (if u < c then 0 else b u)"
  by (induction c arbitrary: a b) (auto simp: less_Suc_eq)

lemma bound_textures_append:
  "bound_textures (xs @ ys) ab = bound_textures ys (foldl (\<lambda>ab c. apply_call c ab) ab xs)"
  by (simp add: bound_textures_def)

lemma bound_after_release:
  "u < c \<Longrightarrow> bound_textures (pre @ release_textures c @ [ShaderRelease sh]) ab u = 0"
proof -
  assume "u < c"
  obtain a b where ab: "foldl (\<lambda>ab c. apply_call c ab) ab pre = (a, b)"
    by (cases "foldl (\<lambda>ab c. apply_call c ab) ab pre")
  obtain a' b' where ab': "foldl (\<lambda>ab c. apply_call c ab) (a, b) (release_textures c) = (a', b')"
    by (cases "foldl (\<lambda>ab c. apply_call c ab) (a, b) (release_textures c)")
  have "b' u = 0"
    using replay_release[of a b c u] ab' \<open>u < c\<close> by simp
  then show ?thesis
    by (simp add: bound_textures_def ab ab')
qed

lemma activated_append: "activated (xs @ ys) = activated xs @ activated ys"
  by (induction xs rule: activated.induct) simp_all

lemma bind_texture_input_activated:
  "activated (issued (bind_texture_input env n sh p loc v st)) =
     activated (issued st) @ [input_texture_count st]"
  by (simp add: bind_texture_input_def Let_def activated_append split: option.splits)

lemma bind_input_activated:
  "activated (issued (bind_input env n db sh p loc st)) =
     activated (issued st) @
     (if resolved_type db p = kFootage \<or> resolved_type db p = kTexture \<or> resolved_type db p = kBuffer
      then [input_texture_count st] else [])"
  by (simp add: bind_input_def resolved_type_def Let_def bind_texture_input_activated activated_append
      split: data_type.splits)

lemma bind_parameter_activated:
  "activated (issued (bind_parameter env n db sh p st)) =
     activated (issued st) @ (if binds_texture env db sh p then [input_texture_count st] else [])"
  by (simp add: bind_parameter_def binds_texture_def Let_def bind_input_activated)

lemma ResolveInputs_activated:
  "activated (issued (ResolveInputs env n db sh ps st)) =
     activated (issued st) @
     [input_texture_count st ..< input_texture_count st + length (filter (binds_texture env db sh) ps)]"
proof (induction ps arbitrary: st)
  case Nil
  then show ?case by simp
next
  case (Cons p ps)
  show ?case
  proof (cases "binds_texture env db sh p")
    case True
    then show ?thesis
      by (simp add: Cons.IH bind_parameter_activated bind_parameter_count upt_conv_Cons del: upt_Suc)
  next
    case False
    then show ?thesis
      by (simp add: Cons.IH bind_parameter_activated bind_parameter_count)
  qed
qed

lemma run_inputs_activated:
  "activated (issued (run_inputs env n db s)) = [0 ..< input_texture_count (run_inputs env n db s)]"
  by (simp add: run_inputs_count) (simp add: run_inputs_def ResolveInputs_activated)

text \<open>
  C6, as the code has it. The units selected while the inputs were bound are \<open>0, ..., c - 1\<close>.
  The call ends by rebinding each of them to the empty texture, from \<open>c - 1\<close> down to 0, and
  then releasing the program; whatever was bound before, each of these units is empty
  when the call returns.
\<close>

theorem bound_units_released_descending:
  assumes "sh = fst (getOrCompile env n db s)"
    and "c = input_texture_count (run_inputs env n db s)"
    and "new = issued_by s (snd (RunNodeAccelerated env n r db out params s))"
  shows "activated (issued (run_inputs env n db s)) = [0 ..< c]
       \<and> (\<exists>pre. new = pre @ concat (map (\<lambda>u. [glActiveTexture u, glBindTexture 0]) (rev [0 ..< c]))
                         @ [ShaderRelease (sh_id sh)])
       \<and> (\<forall>u < c. bound_textures new ab u = 0)"
proof -
  have log: "new = (compile_calls env n db s
              @ map (\<lambda>t. TextureCacheGet (tex_id t) params) (dst_textures n params s)
              @ [ShaderBind (sh_id sh)]
              @ issued (run_inputs env n db s)
              @ setup_calls n sh r params
              @ concat (map (iteration_calls sh (dst_textures n params s)
                      (iterative_input (run_inputs env n db s)))
                 [0 ..< nat (ShaderIterations n)]))
             @ release_textures c @ [ShaderRelease (sh_id sh)]"
    unfolding assms by (simp add: issued_by_def RunNodeAccelerated_log)
  have a: "activated (issued (run_inputs env n db s)) = [0 ..< c]"
    unfolding assms(2) by (rule run_inputs_activated)
  have b: "\<exists>pre. new = pre @ concat (map (\<lambda>u. [glActiveTexture u, glBindTexture 0]) (rev [0 ..< c]))
                         @ [ShaderRelease (sh_id sh)]"
    using log unfolding release_descending by blast
  have c: "\<forall>u < c. bound_textures new ab u = 0"
    unfolding log by (simp add: bound_after_release del: append_assoc)
  from a b c show ?thesis by blast
qed

theorem bound_units_released_descending_witness:
  "activated (issued (run_inputs env_ok node_blur db_tex proxy_ready)) = [0]
   \<and> bound_textures
         (issued_by proxy_ready (snd (RunNodeAccelerated env_ok node_blur 0 db_tex [] params_4x4 proxy_ready)))
         units_empty 0 = 0"
proof -
  have c: "input_texture_count (run_inputs env_ok node_blur db_tex proxy_ready) = 1"
    by (simp add: run_inputs_count node_blur_texture_inputs)
  show ?thesis
    using bound_units_released_descending[OF refl refl refl,
            of env_ok node_blur db_tex proxy_ready 0 "[]" params_4x4 units_empty]
    by (simp add: c)
qed

text \<open>
  C6, the claim as stated fails: it also says that no binding is left for the next call.
  An iteration after the first binds unit \<open>iterative_input\<close> (0 when no feedback input was
  bound); when no texture input was bound, nothing rebinds it. The two-pass node without
  inputs returns with unit 0 bound to its destination texture.
\<close>

theorem iteration_binding_left_bound:
  "bound_textures
     (issued_by proxy_ready (snd (RunNodeAccelerated env_ok node_twice 0 db_tex [] params_4x4 proxy_ready)))
     units_empty 0 = 1"
  by (simp add: issued_by_def RunNodeAccelerated_log bound_textures_def compile_calls_def
        getOrCompile_def Let_def dst_textures_def run_inputs_def setup_calls_def iteration_calls_def
        node_twice_def proxy_ready_def env_ok_def params_4x4_def units_empty_def upt_rec)

subsection \<open>Downloading a texture\<close>

text \<open>
  C7. Downloading from a variant that holds no texture (a null reference, or no
  reference at all) returns at once: the frame and the proxy, log included, are unchanged.
\<close>

theorem download_of_null_texture_is_noop:
  assumes "as_texture tex_in = None"
  shows "TextureToBuffer tex_in frame matrix s = (frame, s)"
  using assms by (simp add: TextureToBuffer_def)

theorem download_of_null_texture_is_noop_witness:
  "as_texture (QTextureRef None) = None
   \<and> TextureToBuffer (QTextureRef None) frame_4x4 0 proxy_ready = (frame_4x4, proxy_ready)"
  using download_of_null_texture_is_noop[of "QTextureRef None" frame_4x4 0 proxy_ready]
  by simp

text \<open>
  C8. When the frame's size differs from the texture's, a texture of the frame's shape is
  created, the source is drawn into it with the copy program and the matrix, and that
  texture is read back; when the sizes agree the source texture is read back directly.
  Both branches end in the same read-back; the function has no other exit.
\<close>

theorem download_resizes_on_mismatch:
  assumes "as_texture tex_in = Some texture"
    and "resized = \<lparr>tex_id = Suc (length (texture_cache s)), tex_params = f_video_params frame\<rparr>"
    and "readback = (\<lambda>t. [BufferAttach (tex_id t) False, BufferBind,
                           glPixelStorei (f_linesize_pixels frame),
                           glReadPixels (frame_width frame) (frame_height frame) (frame_format frame),
                           glPixelStorei 0, BufferRelease, BufferDetach])"
    and "result = (\<lambda>t. frame\<lparr>f_data := ReadPixels (tex_id t) (frame_width frame) (frame_height frame)
                                        (frame_format frame) (f_linesize_pixels frame)\<rparr>)"
  shows "(frame_width frame \<noteq> tex_width texture \<or> frame_height frame \<noteq> tex_height texture \<longrightarrow>
            fst (TextureToBuffer tex_in frame matrix s) = result resized
          \<and> tex_width resized = frame_width frame \<and> tex_height resized = frame_height frame
          \<and> texture_cache (snd (TextureToBuffer tex_in frame matrix s)) = texture_cache s @ [resized]
          \<and> issued_by s (snd (TextureToBuffer tex_in frame matrix s)) =
               [glViewport (frame_width frame) (frame_height frame),
                TextureCacheGet (tex_id resized) (f_video_params frame),
                BufferAttach (tex_id resized) True, BufferBind, TextureBind (tex_id texture),
                BlitCopy (map_option sh_id (copy_pipeline s)) matrix,
                TextureRelease (tex_id texture), BufferRelease, BufferDetach]
               @ readback resized)
       \<and> (frame_width frame = tex_width texture \<and> frame_height frame = tex_height texture \<longrightarrow>
            fst (TextureToBuffer tex_in frame matrix s) = result texture
          \<and> texture_cache (snd (TextureToBuffer tex_in frame matrix s)) = texture_cache s
          \<and> issued_by s (snd (TextureToBuffer tex_in frame matrix s)) =
               [glViewport (frame_width frame) (frame_height frame)] @ readback texture)"
  using assms(1) unfolding assms(2,3,4)
  by (simp add: TextureToBuffer_def issued_by_def Let_def case_prod_beta emit_fields
        texture_cache_Get_fields buffer_Attach_fields buffer_Detach_fields
        tex_width_def tex_height_def frame_width_def frame_height_def)

theorem download_resizes_on_mismatch_witness:
  "as_texture (QTextureRef (Some tex_9)) = Some tex_9
   \<and> frame_width frame_2x2 \<noteq> tex_width tex_9
   \<and> f_data (fst (TextureToBuffer (QTextureRef (Some tex_9)) frame_2x2 0 proxy_ready)) =
        ReadPixels 1 2 2 PIX_FMT_RGBA8 2
   \<and> texture_cache (snd (TextureToBuffer (QTextureRef (Some tex_9)) frame_2x2 0 proxy_ready)) =
        [\<lparr>tex_id = 1, tex_params = VideoParams 2 2 PIX_FMT_RGBA8 1\<rparr>]
   \<and> frame_width frame_4x4 = tex_width tex_9 \<and> frame_height frame_4x4 = tex_height tex_9
   \<and> f_data (fst (TextureToBuffer (QTextureRef (Some tex_9)) frame_4x4 0 proxy_ready)) =
        ReadPixels 9 4 4 PIX_FMT_RGBA8 4
   \<and> texture_cache (snd (TextureToBuffer (QTextureRef (Some tex_9)) frame_4x4 0 proxy_ready)) = []"
proof -
  have t: "as_texture (QTextureRef (Some tex_9)) = Some tex_9" by simp
  have dims:
    "frame_width frame_2x2 = 2" "frame_height frame_2x2 = 2" "frame_format frame_2x2 = PIX_FMT_RGBA8"
    "frame_width frame_4x4 = 4" "frame_height frame_4x4 = 4" "frame_format frame_4x4 = PIX_FMT_RGBA8"
    "tex_width tex_9 = 4" "tex_height tex_9 = 4" "tex_id tex_9 = 9"
    "f_linesize_pixels frame_2x2 = 2" "f_linesize_pixels frame_4x4 = 4"
    "f_video_params frame_2x2 = VideoParams 2 2 PIX_FMT_RGBA8 1"
    "texture_cache proxy_ready = []"
    by (simp_all add: frame_2x2_def frame_4x4_def tex_9_def params_4x4_def VideoParams_def
          frame_width_def frame_height_def frame_format_def tex_width_def tex_height_def
          effective_width_def effective_height_def proxy_ready_def)
  show ?thesis
    using download_resizes_on_mismatch[OF t refl refl refl, where s = proxy_ready and frame = frame_2x2 and matrix = 0]
          download_resizes_on_mismatch[OF t refl refl refl, where s = proxy_ready and frame = frame_4x4 and matrix = 0]
    by (simp add: dims)
qed

subsection \<open>Uploading a frame\<close>

text \<open>
  C9. On the accurate path the only call logged is the upload, and the frame uploaded is
  the input after, in this order: conversion to float, disassociation (alpha channel and
  premultiplied), the processor's transform, and reassociation (premultiplied) or
  association (not premultiplied) when there is an alpha channel.
\<close>

theorem accurate_path_transforms_before_upload:
  assumes "GetOCIOMethodForMode mode = kOCIOAccurate"
    and "uploaded = frame\<lparr>
           f_video_params := (f_video_params frame)\<lparr>vp_format :=
              (if FormatHasAlphaChannel (frame_format frame) then PIX_FMT_RGBA32F else PIX_FMT_RGB32F)\<rparr>,
           f_data := accurate_pixels (stream_processor s vs) (FormatHasAlphaChannel (frame_format frame))
                       (premultiplied_alpha vs) (f_data frame)\<rparr>"
  shows "issued_by s (snd (FrameToValue ops GetOCIOMethodForMode frame vs params mode s)) =
           [TextureCacheUpload (Suc (length (texture_cache s))) uploaded]
       \<and> fst (FrameToValue ops GetOCIOMethodForMode frame vs params mode s) =
           NodeValue kTexture (QTextureRef
             (Some \<lparr>tex_id = Suc (length (texture_cache s)), tex_params = f_video_params uploaded\<rparr>))"
proof -
  have acc: "accurate_transform (stream_processor s vs) vs frame = uploaded"
    unfolding assms(2)
    by (simp add: accurate_transform_def accurate_pixels_def Let_def frame_ConvertPixelFormat_def
          frame_DisassociateAlpha_def frame_ConvertFrame_def frame_ReassociateAlpha_def
          frame_AssociateAlpha_def)
  show ?thesis
  proof (cases "color_cache s (get_colorspace_match_string vs)")
    case None
    with acc have acc':
      "accurate_transform \<lparr>cp_input = colorspace vs, cp_reference = GetReferenceColorSpace vs,
                            cp_enabled = False\<rparr> vs frame = uploaded"
      by (simp add: stream_processor_def)
    show ?thesis
      using assms(1) None
      by (simp add: FrameToValue_def Let_def case_prod_beta acc' texture_cache_Get_frame_def
            emit_fields issued_by_def)
  next
    case (Some cp)
    with acc have acc': "accurate_transform cp vs frame = uploaded"
      by (simp add: stream_processor_def)
    show ?thesis
      using assms(1) Some
      by (simp add: FrameToValue_def Let_def case_prod_beta acc' texture_cache_Get_frame_def
            emit_fields issued_by_def)
  qed
qed

theorem accurate_path_transforms_before_upload_witness:
  "always_accurate kOnline = kOCIOAccurate
   \<and> issued_by proxy_ready
         (snd (FrameToValue no_double always_accurate frame_4x4 stream_srgb params_4x4 kOnline proxy_ready)) =
        [TextureCacheUpload 1
           (frame_4x4\<lparr>f_video_params := params_4x4\<lparr>vp_format := PIX_FMT_RGBA32F\<rparr>,
                      f_data := ReassociateAlpha (ConvertFrame ''srgb'' ''linear''
                                  (DisassociateAlpha (ConvertPixelFormat PIX_FMT_RGBA32F (Raw 0))))\<rparr>)]"
proof -
  have m: "always_accurate kOnline = kOCIOAccurate" by (simp add: always_accurate_def)
  have facts:
    "FormatHasAlphaChannel (frame_format frame_4x4)" "premultiplied_alpha stream_srgb"
    "f_video_params frame_4x4 = params_4x4" "f_data frame_4x4 = Raw 0"
    "texture_cache proxy_ready = []"
    "stream_processor proxy_ready stream_srgb =
       \<lparr>cp_input = ''srgb'', cp_reference = ''linear'', cp_enabled = False\<rparr>"
    by (simp_all add: frame_4x4_def frame_format_def params_4x4_def VideoParams_def stream_srgb_def
          stream_processor_def proxy_ready_def)
  show ?thesis
    using m accurate_path_transforms_before_upload[
            where ops = no_double and GetOCIOMethodForMode = always_accurate and mode = kOnline
              and frame = frame_4x4 and vs = stream_srgb and params = params_4x4 and s = proxy_ready,
            OF m refl]
    by (simp add: facts accurate_pixels_def)
qed

lemma aspect_params_size:
  "vp_width (aspect_params ops frame) =
     (if 1 < f_sample_aspect_ratio frame
      then qRound ops (double_mul ops (int_to_double ops (vp_width (f_video_params frame)))
                         (toDouble ops (f_sample_aspect_ratio frame)))
      else vp_width (f_video_params frame))"
  "vp_height (aspect_params ops frame) =
     (if f_sample_aspect_ratio frame < 1 \<and> f_sample_aspect_ratio frame \<noteq> 0
      then qRound ops (double_div ops (int_to_double ops (vp_height (f_video_params frame)))
                         (toDouble ops (f_sample_aspect_ratio frame)))
      else vp_height (f_video_params frame))"
  by (auto simp: aspect_params_def Let_def VideoParams_def)

lemma accurate_transform_size:
  "vp_width (f_video_params (accurate_transform cp vs frame)) = vp_width (f_video_params frame)"
  "vp_height (f_video_params (accurate_transform cp vs frame)) = vp_height (f_video_params frame)"
  by (simp_all add: accurate_transform_def Let_def frame_ConvertPixelFormat_def
        frame_DisassociateAlpha_def frame_ConvertFrame_def frame_ReassociateAlpha_def
        frame_AssociateAlpha_def)

lemma fast_transform_result:
  "tex_params (fst (fast_transform ops key cp vs frame params tex s)) =
     VideoParams (vp_width (aspect_params ops frame)) (vp_height (aspect_params ops frame))
       (vp_format params) (vp_divider (aspect_params ops frame))"
  by (simp add: fast_transform_def Let_def case_prod_beta texture_cache_Get_fields)

text \<open>
  The size of the texture returned: on the path for \<open>kOCIOFast\<close> the size after the
  aspect-ratio check, on every other path the frame's own.
\<close>

lemma FrameToValue_result:
  "\<exists>t. fst (FrameToValue ops G frame vs params mode s) = NodeValue kTexture (QTextureRef (Some t))
     \<and> vp_width (tex_params t) =
         (if G mode = kOCIOFast then vp_width (aspect_params ops frame) else vp_width (f_video_params frame))
     \<and> vp_height (tex_params t) =
         (if G mode = kOCIOFast then vp_height (aspect_params ops frame) else vp_height (f_video_params frame))"
  by (cases "G mode"; cases "color_cache s (get_colorspace_match_string vs)")
     (simp_all add: FrameToValue_def Let_def case_prod_beta fast_transform_result VideoParams_def
        NodeValue_def texture_cache_Get_frame_def accurate_transform_size)

text \<open>
  C4. The claim: for every frame of aspect ratio above 1 the texture is made wider. The
  aspect-ratio check (lines 126-143) sits inside the branch for \<open>kOCIOFast\<close> (line 118).
  For a 4 by 4 frame of aspect ratio 2 the fast path returns a texture of the widened
  size, whatever the \<open>double\<close> arithmetic; the accurate path returns one of 4 by 4.
\<close>

theorem accurate_path_skips_aspect_correction:
  "1 < f_sample_aspect_ratio frame_wide
   \<and> fst (FrameToValue ops always_accurate frame_wide stream_srgb params_4x4 kOnline proxy_ready) =
        NodeValue kTexture (QTextureRef
          (Some \<lparr>tex_id = 1, tex_params = VideoParams 4 4 PIX_FMT_RGBA32F 1\<rparr>))
   \<and> fst (FrameToValue ops always_fast frame_wide stream_srgb params_4x4 kOnline proxy_ready) =
        NodeValue kTexture (QTextureRef
          (Some \<lparr>tex_id = 2,
                 tex_params = VideoParams
                    (qRound ops (double_mul ops (int_to_double ops 4) (toDouble ops 2)))
                    4 PIX_FMT_RGBA8 1\<rparr>))"
  by (simp add: FrameToValue_def Let_def case_prod_beta texture_cache_Get_frame_def
        texture_cache_Get_def fast_transform_def aspect_params_def buffer_Attach_def buffer_Detach_def
        emit_def accurate_transform_def frame_ConvertPixelFormat_def frame_DisassociateAlpha_def
        frame_ConvertFrame_def frame_ReassociateAlpha_def frame_AssociateAlpha_def frame_format_def
        frame_wide_def stream_srgb_def params_4x4_def VideoParams_def proxy_ready_def
        always_accurate_def always_fast_def numeral_2_eq_2)

subsection \<open>Closing the proxy\<close>

text \<open>
  C3, as the code has it. \<open>Close\<close> empties the shader cache, destroys the framebuffer if it
  exists, drops the copy program and the function table and deletes the context if there
  is one; these are the only calls it issues. It does not touch the texture cache or the
  colour cache. A second \<open>Close\<close> changes nothing and issues no call.
\<close>

theorem close_leaves_texture_cache:
  "shader_cache (Close s) = Map.empty
   \<and> fb_created (buffer (Close s)) = False
   \<and> copy_pipeline (Close s) = None
   \<and> gl_functions (Close s) = None
   \<and> ctx (Close s) = None
   \<and> gl_log (Close s) =
        gl_log s @ (if fb_created (buffer s) then [BufferDestroy] else [])
                 @ (if ctx s = None then [] else [ContextDelete])
   \<and> texture_cache (Close s) = texture_cache s
   \<and> color_cache (Close s) = color_cache s
   \<and> Close (Close s) = Close s"
  by (simp add: Close_def buffer_Destroy_def emit_def Let_def)

text \<open>
  C3, the claim as stated fails: it says both caches are cleared. A texture created before
  \<open>Close\<close> is still in the texture cache after it.
\<close>

theorem close_keeps_textures:
  "texture_cache (Close (snd (texture_cache_Get params_4x4 proxy_ready))) =
     [\<lparr>tex_id = 1, tex_params = params_4x4\<rparr>]"
  by (simp add: Close_def buffer_Destroy_def emit_def Let_def texture_cache_Get_def proxy_ready_def)

end
